theory Spec2Isabelle
  imports Complex_Main "HOL-Library.Sublist" "HOL-Library.Product_Lexorder"
begin

section \<open>Python values and strings\<close>

text \<open>
  The cells of a spreadsheet frame, and the arguments of \<open>clean_id\<close> and \<open>to_time\<close>:
  Python's \<open>None\<close>, the float NaN that pandas uses for an empty cell, a text and an
  integer. Floats other than NaN are not modelled, and neither are dates: the one place
  where the code makes dates of cells (line 66) is a parameter of the model.

  A \<open>string\<close> is read as a sequence of code points below 256 (Latin-1).
\<close>

datatype scalar = PyNone | NaN | Text string | Num int

text \<open>
  The exceptions of the code, and \<open>RepeatedLabel\<close>, which is no exception of Python: it
  marks the inputs on which the code addresses a column through a label that occurs
  more than once in the frame, where pandas answers with a frame in place of a column and
  the model does not follow the code any further.
\<close>

datatype error = IndexError | KeyError | ValueError | RepeatedLabel

definition ord :: "char \<Rightarrow> nat" where
  "ord c = of_char c"

definition is_digit :: "char \<Rightarrow> bool" where
  "is_digit c = (48 \<le> ord c \<and> ord c \<le> 57)"

definition is_upper_az :: "char \<Rightarrow> bool" where
  "is_upper_az c = (65 \<le> ord c \<and> ord c \<le> 90)"

text \<open>\<open>str.isspace\<close> on the code points below 256.\<close>

definition py_isspace :: "char \<Rightarrow> bool" where
  "py_isspace c = ((9 \<le> ord c \<and> ord c \<le> 13) \<or> (28 \<le> ord c \<and> ord c \<le> 32)
                    \<or> ord c = 133 \<or> ord c = 160)"

definition py_strip :: "string \<Rightarrow> string" where
  "py_strip s = rev (dropWhile py_isspace (rev (dropWhile py_isspace s)))"

text \<open>
  \<open>str.upper\<close>: a to z and the Latin-1 small letters move down by 32, the sharp s
  (223) becomes SS. The capitals of 181 and 255 lie above Latin-1; they are left in
  place, which no use below can tell apart: \<open>clean_id\<close> deletes every character outside
  A-Z and 0-9, and the PUNCH test looks for ASCII letters.
\<close>

definition upper_char :: "char \<Rightarrow> string" where
  "upper_char c =
     (if (97 \<le> ord c \<and> ord c \<le> 122) \<or> (224 \<le> ord c \<and> ord c \<le> 254 \<and> ord c \<noteq> 247)
      then [char_of (ord c - 32)]
      else if ord c = 223 then ''SS'' else [c])"

definition py_upper :: "string \<Rightarrow> string" where
  "py_upper s = concat (map upper_char s)"

definition lower_char :: "char \<Rightarrow> char" where
  "lower_char c =
     (if (65 \<le> ord c \<and> ord c \<le> 90) \<or> (192 \<le> ord c \<and> ord c \<le> 222 \<and> ord c \<noteq> 215)
      then char_of (ord c + 32) else c)"

definition py_lower :: "string \<Rightarrow> string" where
  "py_lower s = map lower_char s"

text \<open>Decimal rendering of an integer, as \<open>str\<close> gives it.\<close>

function digits :: "nat \<Rightarrow> string" where
  "digits n = (if n < 10 then [char_of (48 + n)] else digits (n div 10) @ [char_of (48 + n mod 10)])"
  by pat_completeness auto
termination
  by (relation "measure id") auto

declare digits.simps [simp del]

definition py_str :: "scalar \<Rightarrow> string" where
  "py_str v = (case v of
       PyNone \<Rightarrow> ''None''
     | NaN \<Rightarrow> ''nan''
     | Text s \<Rightarrow> s
     | Num n \<Rightarrow> (if n < 0 then CHR ''-'' # digits (nat (- n)) else digits (nat n)))"

text \<open>\<open>pd.isna\<close> / \<open>pd.notna\<close> on a scalar.\<close>

definition isna :: "scalar \<Rightarrow> bool" where
  "isna v = (v = PyNone \<or> v = NaN)"

text \<open>\<open>name in s\<close> on strings is the contiguous-substring test \<open>sublist name s\<close>.\<close>

section \<open>Utility functions\<close>

subsection \<open>clean\_id\<close>

text \<open>
  \<open>re.sub(r"\.0$", "", s)\<close>: the dollar matches at the end of the string and also just
  before a final newline.
\<close>

definition sub_dot0 :: "string \<Rightarrow> string" where
  "sub_dot0 s =
     (if suffix ''.0'' s then take (length s - 2) s
      else if suffix [CHR ''.'', CHR ''0'', CHR 0x0A] s then take (length s - 3) s @ [CHR 0x0A]
      else s)"

definition sub_non_alnum :: "string \<Rightarrow> string" where
  "sub_non_alnum s = filter (\<lambda>c. is_upper_az c \<or> is_digit c) s"

definition clean_id :: "scalar \<Rightarrow> string" where
  "clean_id x = sub_non_alnum (sub_dot0 (py_upper (py_strip (py_str x))))"

subsection \<open>to\_time\<close>

text \<open>
  \<open>datetime.strptime\<close> for the two formats in use. A parsed value is a datetime on
  1900-01-01; only its hour, minute and second vary, and Python compares datetimes
  field by field, which is the lexicographic order on the triple.

  Each directive is a regular expression with ordered alternatives
  (\<open>%H\<close>: \<open>2[0-3]|[0-1]\d|\d\<close>, \<open>%M\<close>: \<open>[0-5]\d|\d\<close>, \<open>%S\<close>: \<open>6[0-1]|[0-5]\d|\d\<close>);
  \<open>directive_matches\<close> lists the ways one directive matches a prefix, in the order the
  backtracking matcher tries them, and \<open>format_matches\<close> does so for a whole format.
  \<open>strptime\<close> takes the first match, raises when input is left over, and raises when
  the datetime constructor rejects a field (a second of 60 or 61).
\<close>

type_synonym datetime = "nat \<times> nat \<times> nat"

datatype directive = DH | DM | DS | Lit char

definition num2 :: "char \<Rightarrow> char \<Rightarrow> nat" where
  "num2 a b = 10 * (ord a - 48) + (ord b - 48)"

definition two_digits :: "(char \<Rightarrow> bool) \<Rightarrow> (char \<Rightarrow> bool) \<Rightarrow> string \<Rightarrow> (nat \<times> string) list" where
  "two_digits p q s =
     (case s of a # b # r \<Rightarrow> (if p a \<and> q b then [(num2 a b, r)] else []) | _ \<Rightarrow> [])"

definition one_digit :: "string \<Rightarrow> (nat \<times> string) list" where
  "one_digit s = (case s of a # r \<Rightarrow> (if is_digit a then [(ord a - 48, r)] else []) | [] \<Rightarrow> [])"

fun directive_matches :: "directive \<Rightarrow> string \<Rightarrow> (nat \<times> string) list" where
  "directive_matches DH s =
     two_digits (\<lambda>a. a = CHR ''2'') (\<lambda>b. b \<in> set ''0123'') s
     @ two_digits (\<lambda>a. a \<in> set ''01'') is_digit s
     @ one_digit s"
| "directive_matches DM s =
     two_digits (\<lambda>a. a \<in> set ''012345'') is_digit s @ one_digit s"
| "directive_matches DS s =
     two_digits (\<lambda>a. a = CHR ''6'') (\<lambda>b. b \<in> set ''01'') s
     @ two_digits (\<lambda>a. a \<in> set ''012345'') is_digit s
     @ one_digit s"
| "directive_matches (Lit c) s =
     (case s of a # r \<Rightarrow> (if a = c then [(0, r)] else []) | [] \<Rightarrow> [])"

fun format_matches :: "directive list \<Rightarrow> string \<Rightarrow> ((directive \<times> nat) list \<times> string) list" where
  "format_matches [] s = [([], s)]"
| "format_matches (d # ds) s =
     concat (map (\<lambda>(v, r). map (\<lambda>(vs, r'). ((d, v) # vs, r')) (format_matches ds r))
                 (directive_matches d s))"

fun set_field :: "datetime \<Rightarrow> directive \<times> nat \<Rightarrow> datetime" where
  "set_field (h, m, s) (DH, v) = (v, m, s)"
| "set_field (h, m, s) (DM, v) = (h, v, s)"
| "set_field (h, m, s) (DS, v) = (h, m, v)"
| "set_field (h, m, s) (Lit c, v) = (h, m, s)"

definition strptime :: "string \<Rightarrow> directive list \<Rightarrow> error + datetime" where
  "strptime s fmt =
     (case format_matches fmt s of
        [] \<Rightarrow> Inl ValueError
      | (vs, r) # _ \<Rightarrow>
          if r \<noteq> [] then Inl ValueError
          else (case foldl set_field (0, 0, 0) vs of
                  (h, m, sec) \<Rightarrow> if h < 24 \<and> m < 60 \<and> sec < 60 then Inr (h, m, sec)
                                 else Inl ValueError))"

definition fmt_HMS :: "directive list" where
  "fmt_HMS = [DH, Lit CHR '':'', DM, Lit CHR '':'', DS]"

definition fmt_HM :: "directive list" where
  "fmt_HM = [DH, Lit CHR '':'', DM]"

text \<open>The loop over the formats: the first that parses returns, an exception moves on.\<close>

fun try_formats :: "string \<Rightarrow> directive list list \<Rightarrow> datetime option" where
  "try_formats s [] = None"
| "try_formats s (fmt # fmts) =
     (case strptime s fmt of Inr t \<Rightarrow> Some t | Inl e \<Rightarrow> try_formats s fmts)"

definition sub_non_time :: "string \<Rightarrow> string" where
  "sub_non_time s = filter (\<lambda>c. is_digit c \<or> c = CHR '':'') s"

definition to_time :: "scalar \<Rightarrow> datetime option" where
  "to_time v =
     (if isna v then None
      else try_formats (py_strip (sub_non_time (py_str v))) [fmt_HMS, fmt_HM])"

subsection \<open>find\_emp\_col\<close>

definition possible :: "string list" where
  "possible = [''pay code'', ''emp code'', ''employee code'', ''empid'', ''emp id'', ''code'']"

definition header_has :: "string \<Rightarrow> string \<Rightarrow> bool" where
  "header_has name c = sublist name (py_lower (py_strip c))"

fun scan_cols :: "string \<Rightarrow> string list \<Rightarrow> string option" where
  "scan_cols name [] = None"
| "scan_cols name (c # cs) = (if header_has name c then Some c else scan_cols name cs)"

fun scan_names :: "string list \<Rightarrow> string list \<Rightarrow> string option" where
  "scan_names [] cols = None"
| "scan_names (name # names) cols =
     (case scan_cols name cols of Some c \<Rightarrow> Some c | None \<Rightarrow> scan_names names cols)"

definition find_emp_col :: "string list \<Rightarrow> error + string" where
  "find_emp_col cols =
     (case scan_names possible cols of
        Some c \<Rightarrow> Inr c
      | None \<Rightarrow> (case cols of [] \<Rightarrow> Inl IndexError | c # _ \<Rightarrow> Inr c))"

section \<open>Frames\<close>

text \<open>
  A pandas frame as \<open>read_excel\<close> delivers it: the column labels (texts) and the rows,
  each row holding one cell per label. The model addresses a column by the position of
  the first occurrence of its label, which is pandas' answer for a label that occurs
  once. Labels that differ in outer white space only become equal at lines 62, 73 and
  74; wherever the code then addresses a column through a label that occurs more than
  once, the model stops with \<open>RepeatedLabel\<close>, except at line 95, where the code raises
  ValueError.
\<close>

record frame =
  columns :: "string list"
  rows :: "scalar list list"

definition cell_of :: "string list \<Rightarrow> scalar list \<Rightarrow> string \<Rightarrow> scalar option" where
  "cell_of cols r c = map_of (zip cols r) c"

definition repeated :: "string \<Rightarrow> string list \<Rightarrow> bool" where
  "repeated c cols = (1 < count_list cols c)"

text \<open>\<open>df[c]\<close> as the list of its cells, top to bottom.\<close>

definition col_values :: "frame \<Rightarrow> string \<Rightarrow> scalar list" where
  "col_values f c =
     concat (map (\<lambda>r. case cell_of (columns f) r c of Some v \<Rightarrow> [v] | None \<Rightarrow> []) (rows f))"

definition index_of :: "string \<Rightarrow> string list \<Rightarrow> nat" where
  "index_of c cols = length (takeWhile (\<lambda>x. x \<noteq> c) cols)"

text \<open>\<open>df[c] = df[c].map(g)\<close> on an existing column.\<close>

definition map_column :: "(scalar \<Rightarrow> scalar) \<Rightarrow> string \<Rightarrow> frame \<Rightarrow> frame" where
  "map_column g c f =
     f\<lparr>rows := map (\<lambda>r. r[index_of c (columns f) := g (r ! index_of c (columns f))]) (rows f)\<rparr>"

text \<open>
  \<open>df[c] = values\<close>: an existing column is overwritten where it stands, a new label is
  appended as the last column.
\<close>

definition set_column :: "string \<Rightarrow> scalar list \<Rightarrow> frame \<Rightarrow> frame" where
  "set_column c vals f =
     (if c \<in> set (columns f)
      then f\<lparr>rows := map (\<lambda>(r, v). r[index_of c (columns f) := v]) (zip (rows f) vals)\<rparr>
      else f\<lparr>columns := columns f @ [c],
              rows := map (\<lambda>(r, v). r @ [v]) (zip (rows f) vals)\<rparr>)"

text \<open>\<open>dedupe_columns_inplace\<close>: the mask is true at the first occurrence of a label.\<close>

fun not_duplicated :: "string list \<Rightarrow> string list \<Rightarrow> bool list" where
  "not_duplicated seen [] = []"
| "not_duplicated seen (c # cs) = (c \<notin> set seen) # not_duplicated (c # seen) cs"

definition select_mask :: "bool list \<Rightarrow> 'a list \<Rightarrow> 'a list" where
  "select_mask keep xs = map fst (filter snd (zip xs keep))"

definition dedupe_columns_inplace :: "frame \<Rightarrow> frame" where
  "dedupe_columns_inplace df =
     (let keep = not_duplicated [] (columns df)
      in \<lparr>columns = select_mask keep (columns df), rows = map (select_mask keep) (rows df)\<rparr>)"

definition strip_columns :: "frame \<Rightarrow> frame" where
  "strip_columns df = df\<lparr>columns := map py_strip (columns df)\<rparr>"

text \<open>\<open>next((c for c in cols if name in c.lower()), default)\<close>.\<close>

definition next_col :: "string \<Rightarrow> string list \<Rightarrow> string \<Rightarrow> string" where
  "next_col name cols dflt =
     (case filter (\<lambda>c. sublist name (py_lower c)) cols of [] \<Rightarrow> dflt | c # _ \<Rightarrow> c)"

text \<open>
  Lines 64 to 66: the first column whose label contains \<open>date\<close> is replaced by
  \<open>pd.to_datetime\<close> of it (a label that contains \<open>date\<close> is not empty, so the test of
  line 65 holds whenever there is one). With \<open>errors="coerce"\<close> the conversion gives a
  date for a cell it can read and NaT for any other. It is a parameter of the model:
  \<open>to_datetime col v\<close> is the cell that the converted column holds in place of the cell
  \<open>v\<close> of the column \<open>col\<close>, as a scalar of the model.
\<close>

definition coerce_dates :: "(scalar list \<Rightarrow> scalar \<Rightarrow> scalar) \<Rightarrow> frame \<Rightarrow> error + frame" where
  "coerce_dates to_datetime df =
     (case filter (\<lambda>c. sublist ''date'' (py_lower c)) (columns df) of
        [] \<Rightarrow> Inr df
      | date_col # _ \<Rightarrow>
          (if repeated date_col (columns df) then Inl RepeatedLabel
           else Inr (map_column (to_datetime (col_values df date_col)) date_col df)))"

text \<open>
  \<open>df[c] = df[c].astype(str).map(clean_id)\<close>; a label that is not in the frame raises
  KeyError.
\<close>

definition clean_column :: "string \<Rightarrow> frame \<Rightarrow> error + frame" where
  "clean_column c df =
     (if c \<notin> set (columns df) then Inl KeyError
      else if repeated c (columns df) then Inl RepeatedLabel
      else Inr (map_column (\<lambda>v. Text (clean_id (Text (py_str v)))) c df))"

text \<open>
  \<open>df.replace(r"^\s*$|^-$", np.nan, regex=True)\<close>: a text cell in which the pattern is
  found becomes NaN. The pattern finds the texts of white space only, the lone dash, and
  the dash before a final newline.
\<close>

definition is_blank :: "string \<Rightarrow> bool" where
  "is_blank s = (list_all py_isspace s \<or> s = ''-'' \<or> s = [CHR ''-'', CHR 0x0A])"

definition replace_cell :: "scalar \<Rightarrow> scalar" where
  "replace_cell v = (case v of Text s \<Rightarrow> (if is_blank s then NaN else Text s) | _ \<Rightarrow> v)"

definition replace_blank :: "frame \<Rightarrow> frame" where
  "replace_blank df = df\<lparr>rows := map (map replace_cell) (rows df)\<rparr>"

section \<open>Comparison logic\<close>

subsection \<open>Collecting punch times\<close>

text \<open>
  The loop of lines 94 to 98 over the labels and the cells of the matched row. Under a
  label that contains \<open>PUNCH\<close> and occurs more than once \<open>r[c]\<close> is a Series, not a
  cell, and the test of line 95 raises ValueError (the truth value of a Series is
  ambiguous); under any other label the first operand of the test is false and \<open>r[c]\<close> is
  not read.
\<close>

fun collect :: "string list \<Rightarrow> (string \<times> scalar) list \<Rightarrow> error + datetime list" where
  "collect cols [] = Inr []"
| "collect cols ((c, v) # cvs) =
     (if sublist ''PUNCH'' (py_upper c) then
        (if repeated c cols then Inl ValueError
         else (case collect cols cvs of
                 Inl e \<Rightarrow> Inl e
               | Inr punches \<Rightarrow>
                   Inr ((if \<not> isna v then (case to_time v of Some t \<Rightarrow> [t] | None \<Rightarrow> []) else [])
                        @ punches)))
      else collect cols cvs)"

text \<open>
  \<open>get_punch_times\<close>, lines 88 to 100. \<open>df[id_col]\<close> raises KeyError for a label that is
  not in the frame; the first row whose id cell equals \<open>emp\<close> is read, and no such row
  gives the empty list before any cell is read.
\<close>

definition get_punch_times :: "frame \<Rightarrow> scalar \<Rightarrow> string \<Rightarrow> error + datetime list" where
  "get_punch_times df emp id_col =
     (if id_col \<notin> set (columns df) then Inl KeyError
      else if repeated id_col (columns df) then Inl RepeatedLabel
      else (case filter (\<lambda>r. cell_of (columns df) r id_col = Some emp) (rows df) of
              [] \<Rightarrow> Inr []
            | r # _ \<Rightarrow>
                (case collect (columns df) (zip (columns df) r) of
                   Inl e \<Rightarrow> Inl e
                 | Inr punches \<Rightarrow> Inr (sort punches))))"

subsection \<open>The status of one roster row\<close>

definition in_start :: datetime where "in_start = (6, 45, 0)"
definition in_end :: datetime where "in_end = (7, 30, 0)"
definition out_start :: datetime where "out_start = (15, 15, 0)"
definition out_end :: datetime where "out_end = (15, 20, 0)"

text \<open>
  \<open>(b - a).total_seconds()\<close> of two punches, which \<open>strptime\<close> puts on the same day, is
  the difference of their seconds since midnight.
\<close>

definition total_seconds :: "datetime \<Rightarrow> int" where
  "total_seconds t = (case t of (h, m, s) \<Rightarrow> 3600 * int h + 60 * int m + int s)"

definition diff_mins :: "datetime option \<Rightarrow> datetime option \<Rightarrow> real" where
  "diff_mins a b =
     (case (a, b) of
        (Some x, Some y) \<Rightarrow> \<bar>real_of_int (total_seconds y - total_seconds x)\<bar> / 60
      | _ \<Rightarrow> 9999)"

definition full_night :: "datetime list \<Rightarrow> datetime list \<Rightarrow> string" where
  "full_night punches_day1 punches_day2 =
     (let p1_day1 = (if punches_day1 \<noteq> [] then Some (punches_day1 ! 0) else None);
          p1_day2 = (if punches_day2 \<noteq> [] then Some (punches_day2 ! 0) else None)
      in if p1_day1 \<noteq> None \<and> p1_day2 \<noteq> None then ''Match''
         else if p1_day1 \<noteq> None \<and> p1_day2 = None then ''Match''
         else if p1_day1 = None \<and> p1_day2 \<noteq> None then ''Single Out Punch''
         else ''No Punch'')"

definition day_morning :: "datetime list \<Rightarrow> string" where
  "day_morning punches_day1 =
     (if length punches_day1 < 2 then ''No Punch''
      else (let in_time = punches_day1 ! 0; out_time = last punches_day1
            in if \<not> (in_start \<le> in_time \<and> in_time \<le> in_end) then ''No Punch''
               else if out_time < out_start then ''Early''
               else if out_start \<le> out_time \<and> out_time \<le> out_end then ''Match''
               else ''No Punch''))"

definition single_or_match :: "datetime \<Rightarrow> datetime \<Rightarrow> string" where
  "single_or_match a b = (if diff_mins (Some a) (Some b) \<le> 10 then ''Single In Punch'' else ''Match'')"

definition other_shift :: "datetime list \<Rightarrow> string" where
  "other_shift punches_day1 =
     (let n = length punches_day1
      in if n = 0 then ''No Punch''
         else if n \<ge> 4 then single_or_match (punches_day1 ! 0) (punches_day1 ! 3)
         else if n = 3 then single_or_match (punches_day1 ! 0) (punches_day1 ! 2)
         else if n = 2 then single_or_match (punches_day1 ! 0) (punches_day1 ! 1)
         else if n = 1 then ''Single In Punch''
         else ''Mismatch'')"

definition classify :: "string \<Rightarrow> datetime list \<Rightarrow> datetime list \<Rightarrow> string" where
  "classify shift punches_day1 punches_day2 =
     (if sublist ''full'' shift \<or> sublist ''fn'' shift then full_night punches_day1 punches_day2
      else if sublist ''day'' shift \<or> sublist ''morning'' shift then day_morning punches_day1
      else other_shift punches_day1)"

text \<open>
  The body of the loop over the roster, lines 115 to 174: \<open>emp\<close> is the row's cleaned
  id, \<open>shift\<close> its lowercased shift label. A key that is not among the Source-1 ids is
  answered before any punch is collected; for any other key the punches are collected
  from Source 1 (line 119) and then from Source 2 (line 120), whatever the shift label.
\<close>

definition row_status ::
  "frame \<Rightarrow> frame \<Rightarrow> string \<Rightarrow> string \<Rightarrow> scalar list \<Rightarrow> scalar \<Rightarrow> string \<Rightarrow> error + string" where
  "row_status bio1 bio2 b_emp1 b_emp2 all_bio1_ids emp shift =
     (if emp \<notin> set all_bio1_ids then Inr ''No Punch''
      else (case get_punch_times bio1 emp b_emp1 of
              Inl e \<Rightarrow> Inl e
            | Inr punches_day1 \<Rightarrow>
                (case get_punch_times bio2 emp b_emp2 of
                   Inl e \<Rightarrow> Inl e
                 | Inr punches_day2 \<Rightarrow> Inr (classify shift punches_day1 punches_day2))))"

text \<open>Line 114: \<open>str(row.get(shift_col, "")).strip().lower()\<close>.\<close>

definition row_shift :: "string list \<Rightarrow> string \<Rightarrow> scalar list \<Rightarrow> string" where
  "row_shift cols shift_col row =
     py_lower (py_strip (py_str
       (case cell_of cols row shift_col of Some v \<Rightarrow> v | None \<Rightarrow> Text [])))"

text \<open>The loop of lines 112 to 174; the statuses come in the order of the rows.\<close>

fun statuses_loop ::
  "frame \<Rightarrow> frame \<Rightarrow> string \<Rightarrow> string \<Rightarrow> scalar list \<Rightarrow> string list \<Rightarrow> string \<Rightarrow> string
   \<Rightarrow> scalar list list \<Rightarrow> error + string list" where
  "statuses_loop bio1 bio2 b_emp1 b_emp2 ids cols m_emp shift_col [] = Inr []"
| "statuses_loop bio1 bio2 b_emp1 b_emp2 ids cols m_emp shift_col (row # rest) =
     (case cell_of cols row m_emp of
        None \<Rightarrow> Inl KeyError
      | Some emp \<Rightarrow>
          (if repeated shift_col cols then Inl RepeatedLabel
           else (case row_status bio1 bio2 b_emp1 b_emp2 ids emp (row_shift cols shift_col row) of
                   Inl e \<Rightarrow> Inl e
                 | Inr status \<Rightarrow>
                     (case statuses_loop bio1 bio2 b_emp1 b_emp2 ids cols m_emp shift_col rest of
                        Inl e \<Rightarrow> Inl e
                      | Inr statuses \<Rightarrow> Inr (status # statuses)))))"

subsection \<open>compare\_files\<close>

text \<open>
  The frame arguments are the frames as read at lines 61, 69 and 70, the first argument
  is the date conversion of line 66. The rendering of the workbook (lines 178 to 189) is
  not modelled: the result is the annotated frame \<open>manual_df\<close>.
\<close>

definition compare_files ::
  "(scalar list \<Rightarrow> scalar \<Rightarrow> scalar) \<Rightarrow> frame \<Rightarrow> frame \<Rightarrow> frame \<Rightarrow> error + frame" where
  "compare_files to_datetime attendance bio1_raw bio2_raw =
     (case coerce_dates to_datetime (strip_columns attendance) of Inl e \<Rightarrow> Inl e | Inr manual_df \<Rightarrow>
        (let bio1 = strip_columns (dedupe_columns_inplace bio1_raw);
             bio2 = strip_columns (dedupe_columns_inplace bio2_raw);
             m_emp = next_col ''emp id'' (columns manual_df) ''EMP ID''
         in case find_emp_col (columns bio1) of Inl e \<Rightarrow> Inl e | Inr b_emp1 \<Rightarrow>
            (case find_emp_col (columns bio2) of Inl e \<Rightarrow> Inl e | Inr b_emp2 \<Rightarrow>
            (case clean_column m_emp manual_df of Inl e \<Rightarrow> Inl e | Inr manual_df \<Rightarrow>
            (case clean_column b_emp1 bio1 of Inl e \<Rightarrow> Inl e | Inr bio1 \<Rightarrow>
            (case clean_column b_emp2 bio2 of Inl e \<Rightarrow> Inl e | Inr bio2 \<Rightarrow>
               (let bio1 = replace_blank bio1;
                    bio2 = replace_blank bio2;
                    shift_col = next_col ''shift'' (columns manual_df) ''SHIFT'';
                    all_bio1_ids = col_values bio1 b_emp1
                in case statuses_loop bio1 bio2 b_emp1 b_emp2 all_bio1_ids
                          (columns manual_df) m_emp shift_col (rows manual_df) of
                     Inl e \<Rightarrow> Inl e
                   | Inr statuses \<Rightarrow>
                       (if repeated ''Status'' (columns manual_df) then Inl RepeatedLabel
                        else Inr (set_column ''Status'' (map Text statuses) manual_df)))))))))"

section \<open>Notions used in the statements\<close>

text \<open>The texts made of the capitals A to Z and the digits 0 to 9 only.\<close>

definition alnum :: "string \<Rightarrow> bool" where
  "alnum s = list_all (\<lambda>c. is_upper_az c \<or> is_digit c) s"

text \<open>
  The status that the loop of \<open>compare_files\<close> gives a roster row with the cleaned key
  \<open>e\<close> and the lowercased shift label \<open>shift\<close>, from the two biometric frames as they
  stand after line 82: lines 84 and 85 (the blank cells become NaN), line 110 (the set
  of Source-1 ids) and the body of the loop.
\<close>

definition status_of ::
  "frame \<Rightarrow> frame \<Rightarrow> string \<Rightarrow> string \<Rightarrow> string \<Rightarrow> string \<Rightarrow> error + string" where
  "status_of b1 b2 b_emp1 b_emp2 e shift =
     row_status (replace_blank b1) (replace_blank b2) b_emp1 b_emp2
       (col_values (replace_blank b1) b_emp1) (Text e) shift"

text \<open>The punches collected for the key \<open>e\<close> from a biometric frame as it stands after line 82.\<close>

definition punches_of :: "frame \<Rightarrow> string \<Rightarrow> string \<Rightarrow> error + datetime list" where
  "punches_of b id_col e = get_punch_times (replace_blank b) (Text e) id_col"

text \<open>
  A frame whose rows hold one cell per label, and a frame whose labels moreover tell its
  columns apart.
\<close>

definition rectangular :: "frame \<Rightarrow> bool" where
  "rectangular f = list_all (\<lambda>r. length r = length (columns f)) (rows f)"

definition frame_ok :: "frame \<Rightarrow> bool" where
  "frame_ok f = (distinct (columns f) \<and> list_all (\<lambda>r. length r = length (columns f)) (rows f))"

text \<open>
  The roster as it stands after line 66, cell by cell: the position of the date column
  among the trimmed labels, and the cell of row \<open>i\<close> at position \<open>j\<close>, converted when
  \<open>j\<close> is the date column.
\<close>

definition date_position :: "string list \<Rightarrow> nat option" where
  "date_position cols =
     (case filter (\<lambda>c. sublist ''date'' (py_lower c)) cols of
        [] \<Rightarrow> None
      | c # _ \<Rightarrow> Some (index_of c cols))"

definition dated_cell :: "(scalar list \<Rightarrow> scalar \<Rightarrow> scalar) \<Rightarrow> frame \<Rightarrow> nat \<Rightarrow> nat \<Rightarrow> scalar" where
  "dated_cell to_datetime f i j =
     (if date_position (map py_strip (columns f)) = Some j
      then to_datetime (map (\<lambda>r. r ! j) (rows f)) (rows f ! i ! j)
      else rows f ! i ! j)"

text \<open>
  A date conversion for the examples: it reads the one date \<open>2024-01-05\<close> and gives NaT,
  written NaN, for every other cell.
\<close>

definition sample_to_datetime :: "scalar list \<Rightarrow> scalar \<Rightarrow> scalar" where
  "sample_to_datetime col v =
     (if v = Text ''2024-01-05'' then Text ''2024-01-05 00:00:00'' else NaN)"

text \<open>The six values of the Status field.\<close>

definition labels :: "string list" where
  "labels = [''Match'', ''No Punch'', ''Early'', ''Single In Punch'', ''Single Out Punch'', ''Mismatch'']"

text \<open>
  The output contract as the specification words it: the output is the input roster
  with one trailing Status field appended, every Status being one of the six labels.
\<close>

definition appends_status_only :: "frame \<Rightarrow> frame \<Rightarrow> bool" where
  "appends_status_only inp out =
     (columns out = columns inp @ [''Status'']
      \<and> map butlast (rows out) = rows inp
      \<and> list_all (\<lambda>r. r \<noteq> [] \<and> last r \<in> set (map Text labels)) (rows out))"


subsection \<open>The strict parse of the specification\<close>

text \<open>
  The Punch-Time Parser as the specification words it, to be compared with \<open>to_time\<close>:
  the text is cut at its colons; a field is one or two ASCII digits; hour:minute:second
  is three fields with an hour of at most 23 and a minute and a second of at most 59,
  hour:minute is two such fields and gives second 0.
\<close>

fun split_colon :: "string \<Rightarrow> string list" where
  "split_colon [] = [[]]"
| "split_colon (c # cs) =
     (if c = CHR '':'' then [] # split_colon cs
      else (case split_colon cs of f # fs \<Rightarrow> (c # f) # fs | [] \<Rightarrow> [[c]]))"

definition field_value :: "nat \<Rightarrow> string \<Rightarrow> nat option" where
  "field_value mx f =
     (case f of
        [a] \<Rightarrow> if is_digit a then Some (ord a - 48) else None
      | [a, b] \<Rightarrow> if is_digit a \<and> is_digit b \<and> num2 a b \<le> mx then Some (num2 a b) else None
      | _ \<Rightarrow> None)"

definition strict_hms :: "string \<Rightarrow> datetime option" where
  "strict_hms s =
     (case split_colon s of
        [h, m, x] \<Rightarrow>
          (case (field_value 23 h, field_value 59 m, field_value 59 x) of
             (Some a, Some b, Some c) \<Rightarrow> Some (a, b, c)
           | _ \<Rightarrow> None)
      | _ \<Rightarrow> None)"

definition strict_hm :: "string \<Rightarrow> datetime option" where
  "strict_hm s =
     (case split_colon s of
        [h, m] \<Rightarrow>
          (case (field_value 23 h, field_value 59 m) of
             (Some a, Some b) \<Rightarrow> Some (a, b, 0)
           | _ \<Rightarrow> None)
      | _ \<Rightarrow> None)"

definition spec_parse :: "scalar \<Rightarrow> datetime option" where
  "spec_parse v =
     (if isna v then None
      else (case strict_hms (sub_non_time (py_str v)) of
              Some t \<Rightarrow> Some t
            | None \<Rightarrow> strict_hm (sub_non_time (py_str v))))"

text \<open>The largest two-digit value that the regular expression of a directive admits.\<close>

fun two_digit_max :: "directive \<Rightarrow> nat" where
  "two_digit_max DH = 23"
| "two_digit_max DM = 59"
| "two_digit_max DS = 61"
| "two_digit_max (Lit c) = 0"

section \<open>Properties of the identifier normalizer\<close>

lemma ord_simps: "ord CHR ''.'' = 46" "ord CHR 0x0A = 10" "ord CHR '':'' = 58"
  by (simp_all add: ord_def)

lemma alnum_not_space: "is_upper_az c \<or> is_digit c \<Longrightarrow> \<not> py_isspace c"
  by (auto simp: is_upper_az_def is_digit_def py_isspace_def)

lemma alnum_upper: "is_upper_az c \<or> is_digit c \<Longrightarrow> upper_char c = [c]"
  by (auto simp: is_upper_az_def is_digit_def upper_char_def)

lemma alnum_not_dot: "is_upper_az c \<or> is_digit c \<Longrightarrow> c \<noteq> CHR ''.''"
  using ord_simps by (auto simp: is_upper_az_def is_digit_def)

lemma dropWhile_none: "list_all (\<lambda>c. \<not> P c) s \<Longrightarrow> dropWhile P s = s"
  by (cases s) auto

lemma strip_no_space:
  assumes "list_all (\<lambda>c. \<not> py_isspace c) s"
  shows "py_strip s = s"
proof -
  from assms have "list_all (\<lambda>c. \<not> py_isspace c) (rev s)"
    by (simp add: list_all_iff)
  then show ?thesis
    unfolding py_strip_def by (simp add: dropWhile_none [OF assms] dropWhile_none)
qed

lemma alnum_strip: "alnum s \<Longrightarrow> py_strip s = s"
  by (rule strip_no_space) (use alnum_not_space in \<open>auto simp: alnum_def list_all_iff\<close>)

lemma alnum_py_upper: "alnum s \<Longrightarrow> py_upper s = s"
  unfolding alnum_def py_upper_def by (induction s) (auto simp: alnum_upper)

lemma alnum_sub_dot0:
  assumes "alnum s"
  shows "sub_dot0 s = s"
proof -
  from assms have nd: "CHR ''.'' \<notin> set s"
    unfolding alnum_def list_all_iff using alnum_not_dot by blast
  have "\<not> suffix xs s" if "CHR ''.'' \<in> set xs" for xs
    using that nd set_mono_suffix by blast
  then show ?thesis unfolding sub_dot0_def by simp
qed

lemma alnum_sub_non_alnum: "alnum s \<Longrightarrow> sub_non_alnum s = s"
  unfolding alnum_def sub_non_alnum_def by (simp add: list_all_iff)

lemma alnum_clean_id: "alnum (clean_id x)"
  unfolding alnum_def clean_id_def sub_non_alnum_def by (simp add: list_all_iff)

lemma clean_id_alnum: "alnum s \<Longrightarrow> clean_id (Text s) = s"
  unfolding clean_id_def
  by (simp add: py_str_def alnum_strip alnum_py_upper alnum_sub_dot0 alnum_sub_non_alnum)

text \<open>
  Claim C6. \<open>clean_id\<close> is idempotent: cleaning a cleaned key gives the key back, for
  every input; and the raw ids \<open>A-123.0\<close> and \<open>a123\<close> both clean to \<open>A123\<close>.
\<close>

theorem clean_id_idempotent:
  "clean_id (Text (clean_id x)) = clean_id x
   \<and> clean_id (Text ''A-123.0'') = ''A123''
   \<and> clean_id (Text ''a123'') = ''A123''"
proof -
  have "clean_id (Text (clean_id x)) = clean_id x"
    by (rule clean_id_alnum [OF alnum_clean_id])
  moreover have "clean_id (Text ''A-123.0'') = ''A123''" by code_simp
  moreover have "clean_id (Text ''a123'') = ''A123''" by code_simp
  ultimately show ?thesis by simp
qed

theorem clean_id_idempotent_witness:
  "clean_id (Text (clean_id (Num 1230))) = ''1230''
   \<and> clean_id (Text (clean_id (Text '' b-7.0 ''))) = ''B7''"
proof -
  have a: "clean_id (Num 1230) = ''1230''" by code_simp
  have b: "clean_id (Text '' b-7.0 '') = ''B7''" by code_simp
  show ?thesis
    using clean_id_idempotent [of "Num 1230"] clean_id_idempotent [of "Text '' b-7.0 ''"] a b
    by simp
qed

text \<open>
  Claim C7, as stated, fails on the missing inputs: \<open>clean_id\<close> has no test for a
  missing value, it starts with \<open>str(x)\<close>, and the texts \<open>None\<close> and \<open>nan\<close> clean to
  the keys \<open>NONE\<close> and \<open>NAN\<close>, not to the empty string.
\<close>

theorem clean_id_missing_counterexample:
  "clean_id PyNone = ''NONE'' \<and> clean_id PyNone \<noteq> []
   \<and> clean_id NaN = ''NAN'' \<and> clean_id NaN \<noteq> []"
  by code_simp

text \<open>
  Claim C7, amended. \<open>clean_id\<close> is a total function (no operation of its body can
  raise on a text, and every scalar has a text): for every input it returns a key made of
  A to Z and 0 to 9 only; the empty string gives the empty string; a missing input is
  turned into its text first, so \<open>None\<close> gives \<open>NONE\<close> and NaN gives \<open>NAN\<close>.
\<close>

theorem clean_id_total:
  "alnum (clean_id x)
   \<and> clean_id (Text []) = []
   \<and> clean_id PyNone = ''NONE''
   \<and> clean_id NaN = ''NAN''"
proof -
  have "clean_id (Text []) = []" by code_simp
  moreover have "clean_id PyNone = ''NONE''" by code_simp
  moreover have "clean_id NaN = ''NAN''" by code_simp
  ultimately show ?thesis using alnum_clean_id by simp
qed

theorem clean_id_total_witness:
  "alnum (clean_id (Text ''x-9.0'')) \<and> clean_id (Text ''x-9.0'') = ''X9''"
proof -
  have "clean_id (Text ''x-9.0'') = ''X9''" by code_simp
  then show ?thesis using clean_id_total [of "Text ''x-9.0''"] by simp
qed

section \<open>Properties of the row classifier\<close>

lemma cell_of_replace:
  "cell_of cols (map replace_cell r) c = map_option replace_cell (cell_of cols r c)"
  unfolding cell_of_def by (simp add: zip_map2 map_of_map)

lemma col_cells_replace:
  "concat (map (\<lambda>r. case cell_of cols r c of Some v \<Rightarrow> [v] | None \<Rightarrow> []) (map (map replace_cell) rs))
   = map replace_cell (concat (map (\<lambda>r. case cell_of cols r c of Some v \<Rightarrow> [v] | None \<Rightarrow> []) rs))"
  by (induction rs) (auto simp: cell_of_replace split: option.splits)

lemma col_values_replace:
  "col_values (replace_blank b) c = map replace_cell (col_values b c)"
  unfolding col_values_def replace_blank_def by (simp add: col_cells_replace del: map_map)

lemma columns_replace: "columns (replace_blank b) = columns b"
  unfolding replace_blank_def by simp

lemma replace_cell_Text: "replace_cell v = Text e \<Longrightarrow> v = Text e \<and> \<not> is_blank e"
  unfolding replace_cell_def by (auto split: scalar.splits if_splits)

lemma blank_not_id: "is_blank e \<Longrightarrow> Text e \<notin> set (col_values (replace_blank b) c)"
  using replace_cell_Text by (auto simp: col_values_replace)

lemma nonblank_id:
  "\<not> is_blank e \<Longrightarrow> Text e \<in> set (col_values b c) \<Longrightarrow> Text e \<in> set (col_values (replace_blank b) c)"
  unfolding col_values_replace replace_cell_def by force

lemma replaced_id:
  assumes "Text e \<in> set (col_values (replace_blank b) c)"
  shows "Text e \<in> set (col_values b c)"
proof -
  from assms obtain v where v: "v \<in> set (col_values b c)" "replace_cell v = Text e"
    by (auto simp: col_values_replace)
  then show ?thesis using replace_cell_Text by blast
qed

lemma col_values_label:
  assumes "v \<in> set (col_values b c)"
  shows "c \<in> set (columns b)"
proof -
  from assms obtain r where "cell_of (columns b) r c = Some v"
    unfolding col_values_def by (auto split: option.splits)
  then have "(c, v) \<in> set (zip (columns b) r)"
    unfolding cell_of_def by (rule map_of_SomeD)
  then show ?thesis by (rule set_zip_leftD)
qed

lemma blank_no_punches:
  assumes "is_blank e" and "punches_of b c e = Inr p"
  shows "p = []"
proof -
  have "filter (\<lambda>r. cell_of (columns (replace_blank b)) r c = Some (Text e)) (rows (replace_blank b)) = []"
    unfolding replace_blank_def using assms(1) replace_cell_Text
    by (auto simp: filter_empty_conv cell_of_replace)
  then show ?thesis
    using assms(2) unfolding punches_of_def get_punch_times_def by (simp split: if_splits)
qed

lemma sorted_punches: "get_punch_times b emp c = Inr p \<Longrightarrow> sorted p"
  unfolding get_punch_times_def by (auto split: if_splits list.splits sum.splits)

lemma sorted_punches_of: "punches_of b c e = Inr p \<Longrightarrow> sorted p"
  unfolding punches_of_def by (rule sorted_punches)

lemma distinct_count_le_1: "distinct cols \<Longrightarrow> count_list cols c \<le> 1"
  by (induction cols) (auto simp: count_list_0_iff)

lemma distinct_not_repeated: "distinct cols \<Longrightarrow> \<not> repeated c cols"
  unfolding repeated_def using distinct_count_le_1 [of cols c] by simp

lemma collect_total: "distinct cols \<Longrightarrow> \<exists>ps. collect cols cvs = Inr ps"
  by (induction cols cvs rule: collect.induct) (auto simp: distinct_not_repeated)

lemma get_punch_times_total:
  assumes "distinct (columns df)" and "id_col \<in> set (columns df)"
  shows "\<exists>p. get_punch_times df emp id_col = Inr p"
proof (cases "filter (\<lambda>r. cell_of (columns df) r id_col = Some emp) (rows df)")
  case Nil
  then show ?thesis
    unfolding get_punch_times_def using assms by (simp add: distinct_not_repeated)
next
  case (Cons r rs)
  obtain ps where "collect (columns df) (zip (columns df) r) = Inr ps"
    using collect_total [OF assms(1)] by blast
  then show ?thesis
    unfolding get_punch_times_def using assms Cons by (simp add: distinct_not_repeated)
qed

lemma punches_of_total:
  assumes "distinct (columns b)" and "c \<in> set (columns b)"
  shows "\<exists>p. punches_of b c e = Inr p"
  unfolding punches_of_def
  by (rule get_punch_times_total) (simp_all add: columns_replace assms)

lemma collections_return:
  assumes "Text e \<in> set (col_values b1 c1)"
      and "distinct (columns b1) \<and> distinct (columns b2) \<and> c2 \<in> set (columns b2)"
  shows "\<exists>p1 p2. punches_of b1 c1 e = Inr p1 \<and> punches_of b2 c2 e = Inr p2"
  using punches_of_total [of b1 c1 e] punches_of_total [of b2 c2 e]
        col_values_label [OF assms(1)] assms(2)
  by blast

lemma sorted_first_Min: "sorted xs \<Longrightarrow> xs \<noteq> [] \<Longrightarrow> xs ! 0 = Min (set xs)"
  by (cases xs) (auto intro!: Min_eqI [symmetric])

lemma sorted_le_last: "sorted xs \<Longrightarrow> y \<in> set xs \<Longrightarrow> y \<le> last xs"
  by (induction xs) auto

lemma sorted_last_Max: "sorted xs \<Longrightarrow> xs \<noteq> [] \<Longrightarrow> last xs = Max (set xs)"
  by (rule Max_eqI [symmetric]) (auto simp: sorted_le_last)

lemma classify_no_punches: "classify shift [] [] = ''No Punch''"
  unfolding classify_def full_night_def day_morning_def other_shift_def by simp

lemma status_of_present:
  assumes "Text e \<in> set (col_values b1 c1)"
      and "punches_of b1 c1 e = Inr p1" and "punches_of b2 c2 e = Inr p2"
  shows "status_of b1 b2 c1 c2 e shift = Inr (classify shift p1 p2)"
proof (cases "is_blank e")
  case True
  have "p1 = []" "p2 = []"
    using blank_no_punches [OF True assms(2)] blank_no_punches [OF True assms(3)] by simp_all
  then show ?thesis
    unfolding status_of_def row_status_def
    by (simp add: blank_not_id [OF True] classify_no_punches)
next
  case False
  have "Text e \<in> set (col_values (replace_blank b1) c1)"
    by (rule nonblank_id [OF False assms(1)])
  then show ?thesis
    using assms(2,3) unfolding status_of_def row_status_def punches_of_def by simp
qed

lemma status_of_absent:
  assumes "Text e \<notin> set (col_values b1 c1)"
  shows "status_of b1 b2 c1 c2 e shift = Inr ''No Punch''"
  using assms replaced_id unfolding status_of_def row_status_def by auto

lemma full_night_eq:
  "full_night p1 p2 =
     (if p1 \<noteq> [] then ''Match'' else if p2 \<noteq> [] then ''Single Out Punch'' else ''No Punch'')"
  by (cases p1; cases p2) (auto simp: full_night_def)

text \<open>
  Claim C2. A roster row whose key is in Source 1's id column and whose shift label
  contains \<open>full\<close> or \<open>fn\<close>: whenever the punches of both sources are collected (lines
  119 and 120 return), the row gets \<open>Match\<close> when at least one Source-1 punch was
  collected (whatever Source 2 holds), \<open>Single Out Punch\<close> when none was collected from
  Source 1 and at least one from Source 2, and \<open>No Punch\<close> when both lists are empty.
  Both collections do return when the labels of each biometric frame are distinct and
  the id column of Source 2 is one of its columns.
\<close>

theorem full_night_status:
  assumes "Text e \<in> set (col_values b1 c1)"
      and "sublist ''full'' shift \<or> sublist ''fn'' shift"
  shows "(\<forall>p1 p2. punches_of b1 c1 e = Inr p1 \<and> punches_of b2 c2 e = Inr p2 \<longrightarrow>
            status_of b1 b2 c1 c2 e shift =
              Inr (if p1 \<noteq> [] then ''Match''
                   else if p2 \<noteq> [] then ''Single Out Punch''
                   else ''No Punch''))
       \<and> (distinct (columns b1) \<and> distinct (columns b2) \<and> c2 \<in> set (columns b2) \<longrightarrow>
            (\<exists>p1 p2. punches_of b1 c1 e = Inr p1 \<and> punches_of b2 c2 e = Inr p2))"
proof (intro conjI allI impI)
  fix p1 p2
  assume "punches_of b1 c1 e = Inr p1 \<and> punches_of b2 c2 e = Inr p2"
  then have "status_of b1 b2 c1 c2 e shift = Inr (classify shift p1 p2)"
    using status_of_present [OF assms(1)] by blast
  then show "status_of b1 b2 c1 c2 e shift =
      Inr (if p1 \<noteq> [] then ''Match'' else if p2 \<noteq> [] then ''Single Out Punch'' else ''No Punch'')"
    using assms(2) unfolding classify_def full_night_eq by simp
next
  assume "distinct (columns b1) \<and> distinct (columns b2) \<and> c2 \<in> set (columns b2)"
  then show "\<exists>p1 p2. punches_of b1 c1 e = Inr p1 \<and> punches_of b2 c2 e = Inr p2"
    by (rule collections_return [OF assms(1)])
qed

text \<open>
  Claim C1. A roster row whose key is in Source 1's id column and whose shift label
  contains \<open>day\<close> or \<open>morning\<close> and neither \<open>full\<close> nor \<open>fn\<close>: whenever the punches
  of both sources are collected (lines 119 and 120 return), the row gets \<open>No Punch\<close>
  with fewer than two Source-1 punches; otherwise, with the earliest punch as in-time and
  the latest as out-time, \<open>No Punch\<close> when the in-time is outside 06:45:00 to 07:30:00
  (bounds included), else \<open>Early\<close> when the out-time is before 15:15:00, \<open>Match\<close> when
  it is within 15:15:00 to 15:20:00 (bounds included), and \<open>No Punch\<close> after 15:20:00.
  Both collections do return when the labels of each biometric frame are distinct and
  the id column of Source 2 is one of its columns.
\<close>

theorem day_morning_status:
  assumes "Text e \<in> set (col_values b1 c1)"
      and "\<not> sublist ''full'' shift" and "\<not> sublist ''fn'' shift"
      and "sublist ''day'' shift \<or> sublist ''morning'' shift"
  shows "(\<forall>p p2. punches_of b1 c1 e = Inr p \<and> punches_of b2 c2 e = Inr p2 \<longrightarrow>
            status_of b1 b2 c1 c2 e shift =
              Inr (if length p < 2 then ''No Punch''
                   else if Min (set p) < (6, 45, 0) \<or> (7, 30, 0) < Min (set p) then ''No Punch''
                   else if Max (set p) < (15, 15, 0) then ''Early''
                   else if (15, 15, 0) \<le> Max (set p) \<and> Max (set p) \<le> (15, 20, 0) then ''Match''
                   else ''No Punch''))
       \<and> (distinct (columns b1) \<and> distinct (columns b2) \<and> c2 \<in> set (columns b2) \<longrightarrow>
            (\<exists>p p2. punches_of b1 c1 e = Inr p \<and> punches_of b2 c2 e = Inr p2))"
proof (intro conjI allI impI)
  fix p p2
  assume col: "punches_of b1 c1 e = Inr p \<and> punches_of b2 c2 e = Inr p2"
  then have "status_of b1 b2 c1 c2 e shift = Inr (classify shift p p2)"
    using status_of_present [OF assms(1)] by blast
  then have st: "status_of b1 b2 c1 c2 e shift = Inr (day_morning p)"
    using assms(2-4) unfolding classify_def by simp
  have srt: "sorted p" using col sorted_punches_of by blast
  show "status_of b1 b2 c1 c2 e shift =
      Inr (if length p < 2 then ''No Punch''
           else if Min (set p) < (6, 45, 0) \<or> (7, 30, 0) < Min (set p) then ''No Punch''
           else if Max (set p) < (15, 15, 0) then ''Early''
           else if (15, 15, 0) \<le> Max (set p) \<and> Max (set p) \<le> (15, 20, 0) then ''Match''
           else ''No Punch'')"
  proof (cases "length p < 2")
    case True
    then show ?thesis unfolding st day_morning_def by simp
  next
    case False
    then have ne: "p \<noteq> []" by auto
    have mn: "p ! 0 = Min (set p)" and mx: "last p = Max (set p)"
      using sorted_first_Min [OF srt ne] sorted_last_Max [OF srt ne] by simp_all
    show ?thesis
      unfolding st day_morning_def Let_def mn mx in_start_def in_end_def out_start_def out_end_def
      using False by (simp add: not_le not_less del: less_eq_prod_simp less_prod_simp)
  qed
next
  assume "distinct (columns b1) \<and> distinct (columns b2) \<and> c2 \<in> set (columns b2)"
  then show "\<exists>p p2. punches_of b1 c1 e = Inr p \<and> punches_of b2 c2 e = Inr p2"
    by (rule collections_return [OF assms(1)])
qed

lemma minutes_le_10: "(\<bar>real_of_int x\<bar> \<le> 600) = (\<bar>x\<bar> \<le> 600)"
proof -
  have "(\<bar>real_of_int x\<bar> \<le> 600) = (real_of_int \<bar>x\<bar> \<le> real_of_int 600)"
    by simp
  also have "\<dots> = (\<bar>x\<bar> \<le> 600)"
    by (rule of_int_le_iff)
  finally show ?thesis .
qed

lemma single_or_match_eq:
  "single_or_match a b =
     (case (a, b) of
        ((h, m, s), (h', m', s')) \<Rightarrow>
          if \<bar>(3600 * int h' + 60 * int m' + int s') - (3600 * int h + 60 * int m + int s)\<bar> \<le> 600
          then ''Single In Punch'' else ''Match'')"
  unfolding single_or_match_def diff_mins_def total_seconds_def
  by (cases a; cases b) (simp add: minutes_le_10 del: of_int_diff of_int_add of_int_mult)

lemma other_shift_eq:
  "other_shift p =
     (let n = length p
      in if n = 0 then ''No Punch''
         else if n = 1 then ''Single In Punch''
         else single_or_match (p ! 0) (p ! (if n = 2 then 1 else if n = 3 then 2 else 3)))"
proof -
  have "length p = 0 \<or> length p = 1 \<or> length p = 2 \<or> length p = 3 \<or> 4 \<le> length p"
    by arith
  then show ?thesis
    unfolding other_shift_def Let_def by auto
qed

text \<open>
  Claim C3. A roster row whose key is in Source 1's id column and whose shift label
  contains none of \<open>full\<close>, \<open>fn\<close>, \<open>day\<close>, \<open>morning\<close>: whenever the punches of both
  sources are collected (lines 119 and 120 return), the status is given by the ascending
  list of Source-1 punches alone and is the same for any two Source-2 frames: no punch
  gives \<open>No Punch\<close>, one gives \<open>Single In Punch\<close>; two compare punch 0 with punch 1,
  three punch 0 with punch 2, four or more punch 0 with punch 3, and a difference of at
  most 10 minutes, that is 600 seconds between the two times of day, gives
  \<open>Single In Punch\<close>, a larger one \<open>Match\<close>. Both collections do return when the labels
  of each biometric frame are distinct and the id column of Source 2 is one of its
  columns.
\<close>

theorem other_shift_status:
  assumes "Text e \<in> set (col_values b1 c1)"
      and "\<not> sublist ''full'' shift" and "\<not> sublist ''fn'' shift"
      and "\<not> sublist ''day'' shift" and "\<not> sublist ''morning'' shift"
  shows "(\<forall>p p2 p2'. punches_of b1 c1 e = Inr p \<and> punches_of b2 c2 e = Inr p2
                      \<and> punches_of b2' c2' e = Inr p2' \<longrightarrow>
            sorted p
          \<and> status_of b1 b2 c1 c2 e shift =
              Inr (let n = length p
                   in if n = 0 then ''No Punch''
                      else if n = 1 then ''Single In Punch''
                      else (case (p ! 0, p ! (if n = 2 then 1 else if n = 3 then 2 else 3)) of
                              ((h, m, s), (h', m', s')) \<Rightarrow>
                                if \<bar>(3600 * int h' + 60 * int m' + int s')
                                     - (3600 * int h + 60 * int m + int s)\<bar> \<le> 600
                                then ''Single In Punch'' else ''Match''))
          \<and> status_of b1 b2' c1 c2' e shift = status_of b1 b2 c1 c2 e shift)
       \<and> (distinct (columns b1) \<and> distinct (columns b2) \<and> c2 \<in> set (columns b2) \<longrightarrow>
            (\<exists>p p2. punches_of b1 c1 e = Inr p \<and> punches_of b2 c2 e = Inr p2))"
proof (intro conjI allI impI)
  fix p p2 p2'
  assume col: "punches_of b1 c1 e = Inr p \<and> punches_of b2 c2 e = Inr p2
               \<and> punches_of b2' c2' e = Inr p2'"
  have a: "status_of b1 b2 c1 c2 e shift = Inr (classify shift p p2)"
    using status_of_present [OF assms(1)] col by blast
  have b: "status_of b1 b2' c1 c2' e shift = Inr (classify shift p p2')"
    using status_of_present [OF assms(1)] col by blast
  have c: "classify shift p q = other_shift p" for q
    using assms(2-5) unfolding classify_def by simp
  show "sorted p" using col sorted_punches_of by blast
  show "status_of b1 b2 c1 c2 e shift =
      Inr (let n = length p
           in if n = 0 then ''No Punch''
              else if n = 1 then ''Single In Punch''
              else (case (p ! 0, p ! (if n = 2 then 1 else if n = 3 then 2 else 3)) of
                      ((h, m, s), (h', m', s')) \<Rightarrow>
                        if \<bar>(3600 * int h' + 60 * int m' + int s')
                             - (3600 * int h + 60 * int m + int s)\<bar> \<le> 600
                        then ''Single In Punch'' else ''Match''))"
    unfolding a c other_shift_eq single_or_match_eq by (rule refl)
  show "status_of b1 b2' c1 c2' e shift = status_of b1 b2 c1 c2 e shift"
    unfolding a b c by (rule refl)
next
  assume "distinct (columns b1) \<and> distinct (columns b2) \<and> c2 \<in> set (columns b2)"
  then show "\<exists>p p2. punches_of b1 c1 e = Inr p \<and> punches_of b2 c2 e = Inr p2"
    by (rule collections_return [OF assms(1)])
qed

text \<open>
  Claim C4. A roster row whose key occurs nowhere in Source 1's id column gets
  \<open>No Punch\<close>, whatever the shift label and whatever Source 2 holds: the status is the
  same for any two Source-2 frames.
\<close>

theorem absent_status:
  assumes "Text e \<notin> set (col_values b1 c1)"
  shows "status_of b1 b2 c1 c2 e shift = Inr ''No Punch''
     \<and> status_of b1 b2' c1 c2' e shift' = status_of b1 b2 c1 c2 e shift"
  by (simp add: status_of_absent [OF assms])

lemma single_or_match_labels: "single_or_match a b \<in> {''Single In Punch'', ''Match''}"
  unfolding single_or_match_def by simp

lemma other_shift_labels:
  "other_shift p \<in> {''No Punch'', ''Single In Punch'', ''Match''}"
  using single_or_match_labels unfolding other_shift_eq Let_def by auto

lemma day_morning_labels: "day_morning p \<in> {''No Punch'', ''Early'', ''Match''}"
  unfolding day_morning_def Let_def by simp

lemma full_night_labels: "full_night p1 p2 \<in> {''Match'', ''Single Out Punch'', ''No Punch''}"
  unfolding full_night_eq by simp

lemma classify_labels:
  "classify shift p1 p2 \<in> {''Match'', ''No Punch'', ''Early'', ''Single In Punch'', ''Single Out Punch''}"
  using other_shift_labels [of p1] day_morning_labels [of p1] full_night_labels [of p1 p2]
  unfolding classify_def by auto

lemma row_status_labels:
  "row_status bio1 bio2 c1 c2 ids emp shift = Inr st \<Longrightarrow>
   st \<in> {''Match'', ''No Punch'', ''Early'', ''Single In Punch'', ''Single Out Punch''}"
  using classify_labels unfolding row_status_def
  by (auto split: if_splits sum.splits)

theorem full_night_status_witness:
  "sublist ''full'' ''full night''
   \<and> distinct (columns \<lparr>columns = [''Emp Code'', ''Punch 1''], rows = [[Text ''E1'', Text ''22:00''], [Text ''E2'', Text ''-''], [Text ''E3'', Text ''-'']]\<rparr>)
   \<and> Text ''E1'' \<in> set (col_values \<lparr>columns = [''Emp Code'', ''Punch 1''], rows = [[Text ''E1'', Text ''22:00''], [Text ''E2'', Text ''-''], [Text ''E3'', Text ''-'']]\<rparr> ''Emp Code'')
   \<and> punches_of \<lparr>columns = [''Emp Code'', ''Punch 1''], rows = [[Text ''E1'', Text ''22:00''], [Text ''E2'', Text ''-''], [Text ''E3'', Text ''-'']]\<rparr> ''Emp Code'' ''E1'' = Inr [(22, 0, 0)]
   \<and> punches_of \<lparr>columns = [''Emp Code'', ''Punch 1''], rows = [[Text ''E1'', Text ''-''], [Text ''E2'', Text ''06:00''], [Text ''E3'', Text ''-'']]\<rparr> ''Emp Code'' ''E1'' = Inr []
   \<and> status_of \<lparr>columns = [''Emp Code'', ''Punch 1''], rows = [[Text ''E1'', Text ''22:00''], [Text ''E2'', Text ''-''], [Text ''E3'', Text ''-'']]\<rparr>
        \<lparr>columns = [''Emp Code'', ''Punch 1''], rows = [[Text ''E1'', Text ''-''], [Text ''E2'', Text ''06:00''], [Text ''E3'', Text ''-'']]\<rparr>
        ''Emp Code'' ''Emp Code'' ''E1'' ''full night'' = Inr ''Match''
   \<and> Text ''E2'' \<in> set (col_values \<lparr>columns = [''Emp Code'', ''Punch 1''], rows = [[Text ''E1'', Text ''22:00''], [Text ''E2'', Text ''-''], [Text ''E3'', Text ''-'']]\<rparr> ''Emp Code'')
   \<and> punches_of \<lparr>columns = [''Emp Code'', ''Punch 1''], rows = [[Text ''E1'', Text ''22:00''], [Text ''E2'', Text ''-''], [Text ''E3'', Text ''-'']]\<rparr> ''Emp Code'' ''E2'' = Inr []
   \<and> punches_of \<lparr>columns = [''Emp Code'', ''Punch 1''], rows = [[Text ''E1'', Text ''-''], [Text ''E2'', Text ''06:00''], [Text ''E3'', Text ''-'']]\<rparr> ''Emp Code'' ''E2'' = Inr [(6, 0, 0)]
   \<and> status_of \<lparr>columns = [''Emp Code'', ''Punch 1''], rows = [[Text ''E1'', Text ''22:00''], [Text ''E2'', Text ''-''], [Text ''E3'', Text ''-'']]\<rparr>
        \<lparr>columns = [''Emp Code'', ''Punch 1''], rows = [[Text ''E1'', Text ''-''], [Text ''E2'', Text ''06:00''], [Text ''E3'', Text ''-'']]\<rparr>
        ''Emp Code'' ''Emp Code'' ''E2'' ''full night'' = Inr ''Single Out Punch''
   \<and> Text ''E3'' \<in> set (col_values \<lparr>columns = [''Emp Code'', ''Punch 1''], rows = [[Text ''E1'', Text ''22:00''], [Text ''E2'', Text ''-''], [Text ''E3'', Text ''-'']]\<rparr> ''Emp Code'')
   \<and> punches_of \<lparr>columns = [''Emp Code'', ''Punch 1''], rows = [[Text ''E1'', Text ''22:00''], [Text ''E2'', Text ''-''], [Text ''E3'', Text ''-'']]\<rparr> ''Emp Code'' ''E3'' = Inr []
   \<and> punches_of \<lparr>columns = [''Emp Code'', ''Punch 1''], rows = [[Text ''E1'', Text ''-''], [Text ''E2'', Text ''06:00''], [Text ''E3'', Text ''-'']]\<rparr> ''Emp Code'' ''E3'' = Inr []
   \<and> status_of \<lparr>columns = [''Emp Code'', ''Punch 1''], rows = [[Text ''E1'', Text ''22:00''], [Text ''E2'', Text ''-''], [Text ''E3'', Text ''-'']]\<rparr>
        \<lparr>columns = [''Emp Code'', ''Punch 1''], rows = [[Text ''E1'', Text ''-''], [Text ''E2'', Text ''06:00''], [Text ''E3'', Text ''-'']]\<rparr>
        ''Emp Code'' ''Emp Code'' ''E3'' ''full night'' = Inr ''No Punch''"
proof -
  let ?b1 = "\<lparr>columns = [''Emp Code'', ''Punch 1''], rows = [[Text ''E1'', Text ''22:00''], [Text ''E2'', Text ''-''], [Text ''E3'', Text ''-'']]\<rparr>"
  let ?b2 = "\<lparr>columns = [''Emp Code'', ''Punch 1''], rows = [[Text ''E1'', Text ''-''], [Text ''E2'', Text ''06:00''], [Text ''E3'', Text ''-'']]\<rparr>"
  have sh: "sublist ''full'' ''full night''" by code_simp
  have d: "distinct (columns ?b1)" by simp
  have h0: "Text ''E1'' \<in> set (col_values ?b1 ''Emp Code'')" by code_simp
  have p0: "punches_of ?b1 ''Emp Code'' ''E1'' = Inr [(22, 0, 0)]" by code_simp
  have q0: "punches_of ?b2 ''Emp Code'' ''E1'' = Inr []" by code_simp
  have s0: "status_of ?b1 ?b2 ''Emp Code'' ''Emp Code'' ''E1'' ''full night'' = Inr ''Match''"
    using full_night_status [OF h0 disjI1 [OF sh], of ?b2 "''Emp Code''"] p0 q0 by simp
  have h1: "Text ''E2'' \<in> set (col_values ?b1 ''Emp Code'')" by code_simp
  have p1: "punches_of ?b1 ''Emp Code'' ''E2'' = Inr []" by code_simp
  have q1: "punches_of ?b2 ''Emp Code'' ''E2'' = Inr [(6, 0, 0)]" by code_simp
  have s1: "status_of ?b1 ?b2 ''Emp Code'' ''Emp Code'' ''E2'' ''full night'' = Inr ''Single Out Punch''"
    using full_night_status [OF h1 disjI1 [OF sh], of ?b2 "''Emp Code''"] p1 q1 by simp
  have h2: "Text ''E3'' \<in> set (col_values ?b1 ''Emp Code'')" by code_simp
  have p2: "punches_of ?b1 ''Emp Code'' ''E3'' = Inr []" by code_simp
  have q2: "punches_of ?b2 ''Emp Code'' ''E3'' = Inr []" by code_simp
  have s2: "status_of ?b1 ?b2 ''Emp Code'' ''Emp Code'' ''E3'' ''full night'' = Inr ''No Punch''"
    using full_night_status [OF h2 disjI1 [OF sh], of ?b2 "''Emp Code''"] p2 q2 by simp
  show ?thesis
    using sh d h0 p0 q0 s0 h1 p1 q1 s1 h2 p2 q2 s2 by simp
qed

theorem day_morning_status_witness:
  "\<not> sublist ''full'' ''day shift'' \<and> \<not> sublist ''fn'' ''day shift'' \<and> sublist ''day'' ''day shift''
   \<and> distinct (columns \<lparr>columns = [''Emp Code'', ''Punch 1'', ''Punch 2''], rows = [[Text ''E1'', Text ''15:18'', Text ''07:00''], [Text ''E2'', Text ''07:30:00'', Text ''15:20:00''], [Text ''E3'', Text ''06:45'', Text ''15:14:59''], [Text ''E4'', Text ''07:00'', Text ''15:20:01''], [Text ''E5'', Text ''07:30:01'', Text ''15:18''], [Text ''E6'', Text ''07:00'', Text ''-'']]\<rparr>)
   \<and> Text ''E1'' \<in> set (col_values \<lparr>columns = [''Emp Code'', ''Punch 1'', ''Punch 2''], rows = [[Text ''E1'', Text ''15:18'', Text ''07:00''], [Text ''E2'', Text ''07:30:00'', Text ''15:20:00''], [Text ''E3'', Text ''06:45'', Text ''15:14:59''], [Text ''E4'', Text ''07:00'', Text ''15:20:01''], [Text ''E5'', Text ''07:30:01'', Text ''15:18''], [Text ''E6'', Text ''07:00'', Text ''-'']]\<rparr> ''Emp Code'')
   \<and> punches_of \<lparr>columns = [''Emp Code'', ''Punch 1'', ''Punch 2''], rows = [[Text ''E1'', Text ''15:18'', Text ''07:00''], [Text ''E2'', Text ''07:30:00'', Text ''15:20:00''], [Text ''E3'', Text ''06:45'', Text ''15:14:59''], [Text ''E4'', Text ''07:00'', Text ''15:20:01''], [Text ''E5'', Text ''07:30:01'', Text ''15:18''], [Text ''E6'', Text ''07:00'', Text ''-'']]\<rparr> ''Emp Code'' ''E1'' = Inr [(7, 0, 0), (15, 18, 0)]
   \<and> status_of \<lparr>columns = [''Emp Code'', ''Punch 1'', ''Punch 2''], rows = [[Text ''E1'', Text ''15:18'', Text ''07:00''], [Text ''E2'', Text ''07:30:00'', Text ''15:20:00''], [Text ''E3'', Text ''06:45'', Text ''15:14:59''], [Text ''E4'', Text ''07:00'', Text ''15:20:01''], [Text ''E5'', Text ''07:30:01'', Text ''15:18''], [Text ''E6'', Text ''07:00'', Text ''-'']]\<rparr>
        \<lparr>columns = [''Emp Code''], rows = [[Text ''E1'']]\<rparr>
        ''Emp Code'' ''Emp Code'' ''E1'' ''day shift'' = Inr ''Match''
   \<and> Text ''E2'' \<in> set (col_values \<lparr>columns = [''Emp Code'', ''Punch 1'', ''Punch 2''], rows = [[Text ''E1'', Text ''15:18'', Text ''07:00''], [Text ''E2'', Text ''07:30:00'', Text ''15:20:00''], [Text ''E3'', Text ''06:45'', Text ''15:14:59''], [Text ''E4'', Text ''07:00'', Text ''15:20:01''], [Text ''E5'', Text ''07:30:01'', Text ''15:18''], [Text ''E6'', Text ''07:00'', Text ''-'']]\<rparr> ''Emp Code'')
   \<and> punches_of \<lparr>columns = [''Emp Code'', ''Punch 1'', ''Punch 2''], rows = [[Text ''E1'', Text ''15:18'', Text ''07:00''], [Text ''E2'', Text ''07:30:00'', Text ''15:20:00''], [Text ''E3'', Text ''06:45'', Text ''15:14:59''], [Text ''E4'', Text ''07:00'', Text ''15:20:01''], [Text ''E5'', Text ''07:30:01'', Text ''15:18''], [Text ''E6'', Text ''07:00'', Text ''-'']]\<rparr> ''Emp Code'' ''E2'' = Inr [(7, 30, 0), (15, 20, 0)]
   \<and> status_of \<lparr>columns = [''Emp Code'', ''Punch 1'', ''Punch 2''], rows = [[Text ''E1'', Text ''15:18'', Text ''07:00''], [Text ''E2'', Text ''07:30:00'', Text ''15:20:00''], [Text ''E3'', Text ''06:45'', Text ''15:14:59''], [Text ''E4'', Text ''07:00'', Text ''15:20:01''], [Text ''E5'', Text ''07:30:01'', Text ''15:18''], [Text ''E6'', Text ''07:00'', Text ''-'']]\<rparr>
        \<lparr>columns = [''Emp Code''], rows = [[Text ''E1'']]\<rparr>
        ''Emp Code'' ''Emp Code'' ''E2'' ''day shift'' = Inr ''Match''
   \<and> Text ''E3'' \<in> set (col_values \<lparr>columns = [''Emp Code'', ''Punch 1'', ''Punch 2''], rows = [[Text ''E1'', Text ''15:18'', Text ''07:00''], [Text ''E2'', Text ''07:30:00'', Text ''15:20:00''], [Text ''E3'', Text ''06:45'', Text ''15:14:59''], [Text ''E4'', Text ''07:00'', Text ''15:20:01''], [Text ''E5'', Text ''07:30:01'', Text ''15:18''], [Text ''E6'', Text ''07:00'', Text ''-'']]\<rparr> ''Emp Code'')
   \<and> punches_of \<lparr>columns = [''Emp Code'', ''Punch 1'', ''Punch 2''], rows = [[Text ''E1'', Text ''15:18'', Text ''07:00''], [Text ''E2'', Text ''07:30:00'', Text ''15:20:00''], [Text ''E3'', Text ''06:45'', Text ''15:14:59''], [Text ''E4'', Text ''07:00'', Text ''15:20:01''], [Text ''E5'', Text ''07:30:01'', Text ''15:18''], [Text ''E6'', Text ''07:00'', Text ''-'']]\<rparr> ''Emp Code'' ''E3'' = Inr [(6, 45, 0), (15, 14, 59)]
   \<and> status_of \<lparr>columns = [''Emp Code'', ''Punch 1'', ''Punch 2''], rows = [[Text ''E1'', Text ''15:18'', Text ''07:00''], [Text ''E2'', Text ''07:30:00'', Text ''15:20:00''], [Text ''E3'', Text ''06:45'', Text ''15:14:59''], [Text ''E4'', Text ''07:00'', Text ''15:20:01''], [Text ''E5'', Text ''07:30:01'', Text ''15:18''], [Text ''E6'', Text ''07:00'', Text ''-'']]\<rparr>
        \<lparr>columns = [''Emp Code''], rows = [[Text ''E1'']]\<rparr>
        ''Emp Code'' ''Emp Code'' ''E3'' ''day shift'' = Inr ''Early''
   \<and> Text ''E4'' \<in> set (col_values \<lparr>columns = [''Emp Code'', ''Punch 1'', ''Punch 2''], rows = [[Text ''E1'', Text ''15:18'', Text ''07:00''], [Text ''E2'', Text ''07:30:00'', Text ''15:20:00''], [Text ''E3'', Text ''06:45'', Text ''15:14:59''], [Text ''E4'', Text ''07:00'', Text ''15:20:01''], [Text ''E5'', Text ''07:30:01'', Text ''15:18''], [Text ''E6'', Text ''07:00'', Text ''-'']]\<rparr> ''Emp Code'')
   \<and> punches_of \<lparr>columns = [''Emp Code'', ''Punch 1'', ''Punch 2''], rows = [[Text ''E1'', Text ''15:18'', Text ''07:00''], [Text ''E2'', Text ''07:30:00'', Text ''15:20:00''], [Text ''E3'', Text ''06:45'', Text ''15:14:59''], [Text ''E4'', Text ''07:00'', Text ''15:20:01''], [Text ''E5'', Text ''07:30:01'', Text ''15:18''], [Text ''E6'', Text ''07:00'', Text ''-'']]\<rparr> ''Emp Code'' ''E4'' = Inr [(7, 0, 0), (15, 20, 1)]
   \<and> status_of \<lparr>columns = [''Emp Code'', ''Punch 1'', ''Punch 2''], rows = [[Text ''E1'', Text ''15:18'', Text ''07:00''], [Text ''E2'', Text ''07:30:00'', Text ''15:20:00''], [Text ''E3'', Text ''06:45'', Text ''15:14:59''], [Text ''E4'', Text ''07:00'', Text ''15:20:01''], [Text ''E5'', Text ''07:30:01'', Text ''15:18''], [Text ''E6'', Text ''07:00'', Text ''-'']]\<rparr>
        \<lparr>columns = [''Emp Code''], rows = [[Text ''E1'']]\<rparr>
        ''Emp Code'' ''Emp Code'' ''E4'' ''day shift'' = Inr ''No Punch''
   \<and> Text ''E5'' \<in> set (col_values \<lparr>columns = [''Emp Code'', ''Punch 1'', ''Punch 2''], rows = [[Text ''E1'', Text ''15:18'', Text ''07:00''], [Text ''E2'', Text ''07:30:00'', Text ''15:20:00''], [Text ''E3'', Text ''06:45'', Text ''15:14:59''], [Text ''E4'', Text ''07:00'', Text ''15:20:01''], [Text ''E5'', Text ''07:30:01'', Text ''15:18''], [Text ''E6'', Text ''07:00'', Text ''-'']]\<rparr> ''Emp Code'')
   \<and> punches_of \<lparr>columns = [''Emp Code'', ''Punch 1'', ''Punch 2''], rows = [[Text ''E1'', Text ''15:18'', Text ''07:00''], [Text ''E2'', Text ''07:30:00'', Text ''15:20:00''], [Text ''E3'', Text ''06:45'', Text ''15:14:59''], [Text ''E4'', Text ''07:00'', Text ''15:20:01''], [Text ''E5'', Text ''07:30:01'', Text ''15:18''], [Text ''E6'', Text ''07:00'', Text ''-'']]\<rparr> ''Emp Code'' ''E5'' = Inr [(7, 30, 1), (15, 18, 0)]
   \<and> status_of \<lparr>columns = [''Emp Code'', ''Punch 1'', ''Punch 2''], rows = [[Text ''E1'', Text ''15:18'', Text ''07:00''], [Text ''E2'', Text ''07:30:00'', Text ''15:20:00''], [Text ''E3'', Text ''06:45'', Text ''15:14:59''], [Text ''E4'', Text ''07:00'', Text ''15:20:01''], [Text ''E5'', Text ''07:30:01'', Text ''15:18''], [Text ''E6'', Text ''07:00'', Text ''-'']]\<rparr>
        \<lparr>columns = [''Emp Code''], rows = [[Text ''E1'']]\<rparr>
        ''Emp Code'' ''Emp Code'' ''E5'' ''day shift'' = Inr ''No Punch''
   \<and> Text ''E6'' \<in> set (col_values \<lparr>columns = [''Emp Code'', ''Punch 1'', ''Punch 2''], rows = [[Text ''E1'', Text ''15:18'', Text ''07:00''], [Text ''E2'', Text ''07:30:00'', Text ''15:20:00''], [Text ''E3'', Text ''06:45'', Text ''15:14:59''], [Text ''E4'', Text ''07:00'', Text ''15:20:01''], [Text ''E5'', Text ''07:30:01'', Text ''15:18''], [Text ''E6'', Text ''07:00'', Text ''-'']]\<rparr> ''Emp Code'')
   \<and> punches_of \<lparr>columns = [''Emp Code'', ''Punch 1'', ''Punch 2''], rows = [[Text ''E1'', Text ''15:18'', Text ''07:00''], [Text ''E2'', Text ''07:30:00'', Text ''15:20:00''], [Text ''E3'', Text ''06:45'', Text ''15:14:59''], [Text ''E4'', Text ''07:00'', Text ''15:20:01''], [Text ''E5'', Text ''07:30:01'', Text ''15:18''], [Text ''E6'', Text ''07:00'', Text ''-'']]\<rparr> ''Emp Code'' ''E6'' = Inr [(7, 0, 0)]
   \<and> status_of \<lparr>columns = [''Emp Code'', ''Punch 1'', ''Punch 2''], rows = [[Text ''E1'', Text ''15:18'', Text ''07:00''], [Text ''E2'', Text ''07:30:00'', Text ''15:20:00''], [Text ''E3'', Text ''06:45'', Text ''15:14:59''], [Text ''E4'', Text ''07:00'', Text ''15:20:01''], [Text ''E5'', Text ''07:30:01'', Text ''15:18''], [Text ''E6'', Text ''07:00'', Text ''-'']]\<rparr>
        \<lparr>columns = [''Emp Code''], rows = [[Text ''E1'']]\<rparr>
        ''Emp Code'' ''Emp Code'' ''E6'' ''day shift'' = Inr ''No Punch''"
proof -
  let ?b1 = "\<lparr>columns = [''Emp Code'', ''Punch 1'', ''Punch 2''], rows = [[Text ''E1'', Text ''15:18'', Text ''07:00''], [Text ''E2'', Text ''07:30:00'', Text ''15:20:00''], [Text ''E3'', Text ''06:45'', Text ''15:14:59''], [Text ''E4'', Text ''07:00'', Text ''15:20:01''], [Text ''E5'', Text ''07:30:01'', Text ''15:18''], [Text ''E6'', Text ''07:00'', Text ''-'']]\<rparr>"
  let ?b2 = "\<lparr>columns = [''Emp Code''], rows = [[Text ''E1'']]\<rparr>"
  have n1: "\<not> sublist ''full'' ''day shift''" by code_simp
  have n2: "\<not> sublist ''fn'' ''day shift''" by code_simp
  have sh: "sublist ''day'' ''day shift''" by code_simp
  have d: "distinct (columns ?b1)" by simp
  have h0: "Text ''E1'' \<in> set (col_values ?b1 ''Emp Code'')" by code_simp
  have p0: "punches_of ?b1 ''Emp Code'' ''E1'' = Inr [(7, 0, 0), (15, 18, 0)]" by code_simp
  have q0: "punches_of ?b2 ''Emp Code'' ''E1'' = Inr []" by code_simp
  have s0: "status_of ?b1 ?b2 ''Emp Code'' ''Emp Code'' ''E1'' ''day shift'' = Inr ''Match''"
    using day_morning_status [OF h0 n1 n2 disjI1 [OF sh], of ?b2 "''Emp Code''"] p0 q0 by simp
  have h1: "Text ''E2'' \<in> set (col_values ?b1 ''Emp Code'')" by code_simp
  have p1: "punches_of ?b1 ''Emp Code'' ''E2'' = Inr [(7, 30, 0), (15, 20, 0)]" by code_simp
  have q1: "punches_of ?b2 ''Emp Code'' ''E2'' = Inr []" by code_simp
  have s1: "status_of ?b1 ?b2 ''Emp Code'' ''Emp Code'' ''E2'' ''day shift'' = Inr ''Match''"
    using day_morning_status [OF h1 n1 n2 disjI1 [OF sh], of ?b2 "''Emp Code''"] p1 q1 by simp
  have h2: "Text ''E3'' \<in> set (col_values ?b1 ''Emp Code'')" by code_simp
  have p2: "punches_of ?b1 ''Emp Code'' ''E3'' = Inr [(6, 45, 0), (15, 14, 59)]" by code_simp
  have q2: "punches_of ?b2 ''Emp Code'' ''E3'' = Inr []" by code_simp
  have s2: "status_of ?b1 ?b2 ''Emp Code'' ''Emp Code'' ''E3'' ''day shift'' = Inr ''Early''"
    using day_morning_status [OF h2 n1 n2 disjI1 [OF sh], of ?b2 "''Emp Code''"] p2 q2 by simp
  have h3: "Text ''E4'' \<in> set (col_values ?b1 ''Emp Code'')" by code_simp
  have p3: "punches_of ?b1 ''Emp Code'' ''E4'' = Inr [(7, 0, 0), (15, 20, 1)]" by code_simp
  have q3: "punches_of ?b2 ''Emp Code'' ''E4'' = Inr []" by code_simp
  have s3: "status_of ?b1 ?b2 ''Emp Code'' ''Emp Code'' ''E4'' ''day shift'' = Inr ''No Punch''"
    using day_morning_status [OF h3 n1 n2 disjI1 [OF sh], of ?b2 "''Emp Code''"] p3 q3 by simp
  have h4: "Text ''E5'' \<in> set (col_values ?b1 ''Emp Code'')" by code_simp
  have p4: "punches_of ?b1 ''Emp Code'' ''E5'' = Inr [(7, 30, 1), (15, 18, 0)]" by code_simp
  have q4: "punches_of ?b2 ''Emp Code'' ''E5'' = Inr []" by code_simp
  have s4: "status_of ?b1 ?b2 ''Emp Code'' ''Emp Code'' ''E5'' ''day shift'' = Inr ''No Punch''"
    using day_morning_status [OF h4 n1 n2 disjI1 [OF sh], of ?b2 "''Emp Code''"] p4 q4 by simp
  have h5: "Text ''E6'' \<in> set (col_values ?b1 ''Emp Code'')" by code_simp
  have p5: "punches_of ?b1 ''Emp Code'' ''E6'' = Inr [(7, 0, 0)]" by code_simp
  have q5: "punches_of ?b2 ''Emp Code'' ''E6'' = Inr []" by code_simp
  have s5: "status_of ?b1 ?b2 ''Emp Code'' ''Emp Code'' ''E6'' ''day shift'' = Inr ''No Punch''"
    using day_morning_status [OF h5 n1 n2 disjI1 [OF sh], of ?b2 "''Emp Code''"] p5 q5 by simp
  show ?thesis
    using n1 n2 sh d h0 p0 s0 h1 p1 s1 h2 p2 s2 h3 p3 s3 h4 p4 s4 h5 p5 s5 by simp
qed

theorem other_shift_status_witness:
  "\<not> sublist ''full'' ''hf'' \<and> \<not> sublist ''fn'' ''hf'' \<and> \<not> sublist ''day'' ''hf'' \<and> \<not> sublist ''morning'' ''hf''
   \<and> distinct (columns \<lparr>columns = [''Emp Code'', ''Punch 1'', ''Punch 2'', ''Punch 3'', ''Punch 4'', ''Punch 5''], rows = [[Text ''E1'', Text ''09:10'', Text ''09:00'', Text ''-'', Text ''-'', Text ''-''], [Text ''E2'', Text ''09:00:00'', Text ''09:10:01'', Text ''-'', Text ''-'', Text ''-''], [Text ''E3'', Text ''09:00'', Text ''09:05'', Text ''09:30'', Text ''-'', Text ''-''], [Text ''E4'', Text ''09:00'', Text ''09:02'', Text ''09:04'', Text ''09:06'', Text ''12:00''], [Text ''E5'', Text ''09:00'', Text ''-'', Text ''-'', Text ''-'', Text ''-''], [Text ''E6'', Text ''-'', Text ''-'', Text ''-'', Text ''-'', Text ''-'']]\<rparr>)
   \<and> Text ''E1'' \<in> set (col_values \<lparr>columns = [''Emp Code'', ''Punch 1'', ''Punch 2'', ''Punch 3'', ''Punch 4'', ''Punch 5''], rows = [[Text ''E1'', Text ''09:10'', Text ''09:00'', Text ''-'', Text ''-'', Text ''-''], [Text ''E2'', Text ''09:00:00'', Text ''09:10:01'', Text ''-'', Text ''-'', Text ''-''], [Text ''E3'', Text ''09:00'', Text ''09:05'', Text ''09:30'', Text ''-'', Text ''-''], [Text ''E4'', Text ''09:00'', Text ''09:02'', Text ''09:04'', Text ''09:06'', Text ''12:00''], [Text ''E5'', Text ''09:00'', Text ''-'', Text ''-'', Text ''-'', Text ''-''], [Text ''E6'', Text ''-'', Text ''-'', Text ''-'', Text ''-'', Text ''-'']]\<rparr> ''Emp Code'')
   \<and> punches_of \<lparr>columns = [''Emp Code'', ''Punch 1'', ''Punch 2'', ''Punch 3'', ''Punch 4'', ''Punch 5''], rows = [[Text ''E1'', Text ''09:10'', Text ''09:00'', Text ''-'', Text ''-'', Text ''-''], [Text ''E2'', Text ''09:00:00'', Text ''09:10:01'', Text ''-'', Text ''-'', Text ''-''], [Text ''E3'', Text ''09:00'', Text ''09:05'', Text ''09:30'', Text ''-'', Text ''-''], [Text ''E4'', Text ''09:00'', Text ''09:02'', Text ''09:04'', Text ''09:06'', Text ''12:00''], [Text ''E5'', Text ''09:00'', Text ''-'', Text ''-'', Text ''-'', Text ''-''], [Text ''E6'', Text ''-'', Text ''-'', Text ''-'', Text ''-'', Text ''-'']]\<rparr> ''Emp Code'' ''E1'' = Inr [(9, 0, 0), (9, 10, 0)]
   \<and> status_of \<lparr>columns = [''Emp Code'', ''Punch 1'', ''Punch 2'', ''Punch 3'', ''Punch 4'', ''Punch 5''], rows = [[Text ''E1'', Text ''09:10'', Text ''09:00'', Text ''-'', Text ''-'', Text ''-''], [Text ''E2'', Text ''09:00:00'', Text ''09:10:01'', Text ''-'', Text ''-'', Text ''-''], [Text ''E3'', Text ''09:00'', Text ''09:05'', Text ''09:30'', Text ''-'', Text ''-''], [Text ''E4'', Text ''09:00'', Text ''09:02'', Text ''09:04'', Text ''09:06'', Text ''12:00''], [Text ''E5'', Text ''09:00'', Text ''-'', Text ''-'', Text ''-'', Text ''-''], [Text ''E6'', Text ''-'', Text ''-'', Text ''-'', Text ''-'', Text ''-'']]\<rparr>
        \<lparr>columns = [''Emp Code'', ''Punch 1''], rows = [[Text ''E1'', Text ''18:00'']]\<rparr>
        ''Emp Code'' ''Emp Code'' ''E1'' ''hf'' = Inr ''Single In Punch''
   \<and> status_of \<lparr>columns = [''Emp Code'', ''Punch 1'', ''Punch 2'', ''Punch 3'', ''Punch 4'', ''Punch 5''], rows = [[Text ''E1'', Text ''09:10'', Text ''09:00'', Text ''-'', Text ''-'', Text ''-''], [Text ''E2'', Text ''09:00:00'', Text ''09:10:01'', Text ''-'', Text ''-'', Text ''-''], [Text ''E3'', Text ''09:00'', Text ''09:05'', Text ''09:30'', Text ''-'', Text ''-''], [Text ''E4'', Text ''09:00'', Text ''09:02'', Text ''09:04'', Text ''09:06'', Text ''12:00''], [Text ''E5'', Text ''09:00'', Text ''-'', Text ''-'', Text ''-'', Text ''-''], [Text ''E6'', Text ''-'', Text ''-'', Text ''-'', Text ''-'', Text ''-'']]\<rparr>
        \<lparr>columns = [''Emp Code''], rows = []\<rparr>
        ''Emp Code'' ''Emp Code'' ''E1'' ''hf'' = Inr ''Single In Punch''
   \<and> Text ''E2'' \<in> set (col_values \<lparr>columns = [''Emp Code'', ''Punch 1'', ''Punch 2'', ''Punch 3'', ''Punch 4'', ''Punch 5''], rows = [[Text ''E1'', Text ''09:10'', Text ''09:00'', Text ''-'', Text ''-'', Text ''-''], [Text ''E2'', Text ''09:00:00'', Text ''09:10:01'', Text ''-'', Text ''-'', Text ''-''], [Text ''E3'', Text ''09:00'', Text ''09:05'', Text ''09:30'', Text ''-'', Text ''-''], [Text ''E4'', Text ''09:00'', Text ''09:02'', Text ''09:04'', Text ''09:06'', Text ''12:00''], [Text ''E5'', Text ''09:00'', Text ''-'', Text ''-'', Text ''-'', Text ''-''], [Text ''E6'', Text ''-'', Text ''-'', Text ''-'', Text ''-'', Text ''-'']]\<rparr> ''Emp Code'')
   \<and> punches_of \<lparr>columns = [''Emp Code'', ''Punch 1'', ''Punch 2'', ''Punch 3'', ''Punch 4'', ''Punch 5''], rows = [[Text ''E1'', Text ''09:10'', Text ''09:00'', Text ''-'', Text ''-'', Text ''-''], [Text ''E2'', Text ''09:00:00'', Text ''09:10:01'', Text ''-'', Text ''-'', Text ''-''], [Text ''E3'', Text ''09:00'', Text ''09:05'', Text ''09:30'', Text ''-'', Text ''-''], [Text ''E4'', Text ''09:00'', Text ''09:02'', Text ''09:04'', Text ''09:06'', Text ''12:00''], [Text ''E5'', Text ''09:00'', Text ''-'', Text ''-'', Text ''-'', Text ''-''], [Text ''E6'', Text ''-'', Text ''-'', Text ''-'', Text ''-'', Text ''-'']]\<rparr> ''Emp Code'' ''E2'' = Inr [(9, 0, 0), (9, 10, 1)]
   \<and> status_of \<lparr>columns = [''Emp Code'', ''Punch 1'', ''Punch 2'', ''Punch 3'', ''Punch 4'', ''Punch 5''], rows = [[Text ''E1'', Text ''09:10'', Text ''09:00'', Text ''-'', Text ''-'', Text ''-''], [Text ''E2'', Text ''09:00:00'', Text ''09:10:01'', Text ''-'', Text ''-'', Text ''-''], [Text ''E3'', Text ''09:00'', Text ''09:05'', Text ''09:30'', Text ''-'', Text ''-''], [Text ''E4'', Text ''09:00'', Text ''09:02'', Text ''09:04'', Text ''09:06'', Text ''12:00''], [Text ''E5'', Text ''09:00'', Text ''-'', Text ''-'', Text ''-'', Text ''-''], [Text ''E6'', Text ''-'', Text ''-'', Text ''-'', Text ''-'', Text ''-'']]\<rparr>
        \<lparr>columns = [''Emp Code'', ''Punch 1''], rows = [[Text ''E1'', Text ''18:00'']]\<rparr>
        ''Emp Code'' ''Emp Code'' ''E2'' ''hf'' = Inr ''Match''
   \<and> status_of \<lparr>columns = [''Emp Code'', ''Punch 1'', ''Punch 2'', ''Punch 3'', ''Punch 4'', ''Punch 5''], rows = [[Text ''E1'', Text ''09:10'', Text ''09:00'', Text ''-'', Text ''-'', Text ''-''], [Text ''E2'', Text ''09:00:00'', Text ''09:10:01'', Text ''-'', Text ''-'', Text ''-''], [Text ''E3'', Text ''09:00'', Text ''09:05'', Text ''09:30'', Text ''-'', Text ''-''], [Text ''E4'', Text ''09:00'', Text ''09:02'', Text ''09:04'', Text ''09:06'', Text ''12:00''], [Text ''E5'', Text ''09:00'', Text ''-'', Text ''-'', Text ''-'', Text ''-''], [Text ''E6'', Text ''-'', Text ''-'', Text ''-'', Text ''-'', Text ''-'']]\<rparr>
        \<lparr>columns = [''Emp Code''], rows = []\<rparr>
        ''Emp Code'' ''Emp Code'' ''E2'' ''hf'' = Inr ''Match''
   \<and> Text ''E3'' \<in> set (col_values \<lparr>columns = [''Emp Code'', ''Punch 1'', ''Punch 2'', ''Punch 3'', ''Punch 4'', ''Punch 5''], rows = [[Text ''E1'', Text ''09:10'', Text ''09:00'', Text ''-'', Text ''-'', Text ''-''], [Text ''E2'', Text ''09:00:00'', Text ''09:10:01'', Text ''-'', Text ''-'', Text ''-''], [Text ''E3'', Text ''09:00'', Text ''09:05'', Text ''09:30'', Text ''-'', Text ''-''], [Text ''E4'', Text ''09:00'', Text ''09:02'', Text ''09:04'', Text ''09:06'', Text ''12:00''], [Text ''E5'', Text ''09:00'', Text ''-'', Text ''-'', Text ''-'', Text ''-''], [Text ''E6'', Text ''-'', Text ''-'', Text ''-'', Text ''-'', Text ''-'']]\<rparr> ''Emp Code'')
   \<and> punches_of \<lparr>columns = [''Emp Code'', ''Punch 1'', ''Punch 2'', ''Punch 3'', ''Punch 4'', ''Punch 5''], rows = [[Text ''E1'', Text ''09:10'', Text ''09:00'', Text ''-'', Text ''-'', Text ''-''], [Text ''E2'', Text ''09:00:00'', Text ''09:10:01'', Text ''-'', Text ''-'', Text ''-''], [Text ''E3'', Text ''09:00'', Text ''09:05'', Text ''09:30'', Text ''-'', Text ''-''], [Text ''E4'', Text ''09:00'', Text ''09:02'', Text ''09:04'', Text ''09:06'', Text ''12:00''], [Text ''E5'', Text ''09:00'', Text ''-'', Text ''-'', Text ''-'', Text ''-''], [Text ''E6'', Text ''-'', Text ''-'', Text ''-'', Text ''-'', Text ''-'']]\<rparr> ''Emp Code'' ''E3'' = Inr [(9, 0, 0), (9, 5, 0), (9, 30, 0)]
   \<and> status_of \<lparr>columns = [''Emp Code'', ''Punch 1'', ''Punch 2'', ''Punch 3'', ''Punch 4'', ''Punch 5''], rows = [[Text ''E1'', Text ''09:10'', Text ''09:00'', Text ''-'', Text ''-'', Text ''-''], [Text ''E2'', Text ''09:00:00'', Text ''09:10:01'', Text ''-'', Text ''-'', Text ''-''], [Text ''E3'', Text ''09:00'', Text ''09:05'', Text ''09:30'', Text ''-'', Text ''-''], [Text ''E4'', Text ''09:00'', Text ''09:02'', Text ''09:04'', Text ''09:06'', Text ''12:00''], [Text ''E5'', Text ''09:00'', Text ''-'', Text ''-'', Text ''-'', Text ''-''], [Text ''E6'', Text ''-'', Text ''-'', Text ''-'', Text ''-'', Text ''-'']]\<rparr>
        \<lparr>columns = [''Emp Code'', ''Punch 1''], rows = [[Text ''E1'', Text ''18:00'']]\<rparr>
        ''Emp Code'' ''Emp Code'' ''E3'' ''hf'' = Inr ''Match''
   \<and> status_of \<lparr>columns = [''Emp Code'', ''Punch 1'', ''Punch 2'', ''Punch 3'', ''Punch 4'', ''Punch 5''], rows = [[Text ''E1'', Text ''09:10'', Text ''09:00'', Text ''-'', Text ''-'', Text ''-''], [Text ''E2'', Text ''09:00:00'', Text ''09:10:01'', Text ''-'', Text ''-'', Text ''-''], [Text ''E3'', Text ''09:00'', Text ''09:05'', Text ''09:30'', Text ''-'', Text ''-''], [Text ''E4'', Text ''09:00'', Text ''09:02'', Text ''09:04'', Text ''09:06'', Text ''12:00''], [Text ''E5'', Text ''09:00'', Text ''-'', Text ''-'', Text ''-'', Text ''-''], [Text ''E6'', Text ''-'', Text ''-'', Text ''-'', Text ''-'', Text ''-'']]\<rparr>
        \<lparr>columns = [''Emp Code''], rows = []\<rparr>
        ''Emp Code'' ''Emp Code'' ''E3'' ''hf'' = Inr ''Match''
   \<and> Text ''E4'' \<in> set (col_values \<lparr>columns = [''Emp Code'', ''Punch 1'', ''Punch 2'', ''Punch 3'', ''Punch 4'', ''Punch 5''], rows = [[Text ''E1'', Text ''09:10'', Text ''09:00'', Text ''-'', Text ''-'', Text ''-''], [Text ''E2'', Text ''09:00:00'', Text ''09:10:01'', Text ''-'', Text ''-'', Text ''-''], [Text ''E3'', Text ''09:00'', Text ''09:05'', Text ''09:30'', Text ''-'', Text ''-''], [Text ''E4'', Text ''09:00'', Text ''09:02'', Text ''09:04'', Text ''09:06'', Text ''12:00''], [Text ''E5'', Text ''09:00'', Text ''-'', Text ''-'', Text ''-'', Text ''-''], [Text ''E6'', Text ''-'', Text ''-'', Text ''-'', Text ''-'', Text ''-'']]\<rparr> ''Emp Code'')
   \<and> punches_of \<lparr>columns = [''Emp Code'', ''Punch 1'', ''Punch 2'', ''Punch 3'', ''Punch 4'', ''Punch 5''], rows = [[Text ''E1'', Text ''09:10'', Text ''09:00'', Text ''-'', Text ''-'', Text ''-''], [Text ''E2'', Text ''09:00:00'', Text ''09:10:01'', Text ''-'', Text ''-'', Text ''-''], [Text ''E3'', Text ''09:00'', Text ''09:05'', Text ''09:30'', Text ''-'', Text ''-''], [Text ''E4'', Text ''09:00'', Text ''09:02'', Text ''09:04'', Text ''09:06'', Text ''12:00''], [Text ''E5'', Text ''09:00'', Text ''-'', Text ''-'', Text ''-'', Text ''-''], [Text ''E6'', Text ''-'', Text ''-'', Text ''-'', Text ''-'', Text ''-'']]\<rparr> ''Emp Code'' ''E4'' = Inr [(9, 0, 0), (9, 2, 0), (9, 4, 0), (9, 6, 0), (12, 0, 0)]
   \<and> status_of \<lparr>columns = [''Emp Code'', ''Punch 1'', ''Punch 2'', ''Punch 3'', ''Punch 4'', ''Punch 5''], rows = [[Text ''E1'', Text ''09:10'', Text ''09:00'', Text ''-'', Text ''-'', Text ''-''], [Text ''E2'', Text ''09:00:00'', Text ''09:10:01'', Text ''-'', Text ''-'', Text ''-''], [Text ''E3'', Text ''09:00'', Text ''09:05'', Text ''09:30'', Text ''-'', Text ''-''], [Text ''E4'', Text ''09:00'', Text ''09:02'', Text ''09:04'', Text ''09:06'', Text ''12:00''], [Text ''E5'', Text ''09:00'', Text ''-'', Text ''-'', Text ''-'', Text ''-''], [Text ''E6'', Text ''-'', Text ''-'', Text ''-'', Text ''-'', Text ''-'']]\<rparr>
        \<lparr>columns = [''Emp Code'', ''Punch 1''], rows = [[Text ''E1'', Text ''18:00'']]\<rparr>
        ''Emp Code'' ''Emp Code'' ''E4'' ''hf'' = Inr ''Single In Punch''
   \<and> status_of \<lparr>columns = [''Emp Code'', ''Punch 1'', ''Punch 2'', ''Punch 3'', ''Punch 4'', ''Punch 5''], rows = [[Text ''E1'', Text ''09:10'', Text ''09:00'', Text ''-'', Text ''-'', Text ''-''], [Text ''E2'', Text ''09:00:00'', Text ''09:10:01'', Text ''-'', Text ''-'', Text ''-''], [Text ''E3'', Text ''09:00'', Text ''09:05'', Text ''09:30'', Text ''-'', Text ''-''], [Text ''E4'', Text ''09:00'', Text ''09:02'', Text ''09:04'', Text ''09:06'', Text ''12:00''], [Text ''E5'', Text ''09:00'', Text ''-'', Text ''-'', Text ''-'', Text ''-''], [Text ''E6'', Text ''-'', Text ''-'', Text ''-'', Text ''-'', Text ''-'']]\<rparr>
        \<lparr>columns = [''Emp Code''], rows = []\<rparr>
        ''Emp Code'' ''Emp Code'' ''E4'' ''hf'' = Inr ''Single In Punch''
   \<and> Text ''E5'' \<in> set (col_values \<lparr>columns = [''Emp Code'', ''Punch 1'', ''Punch 2'', ''Punch 3'', ''Punch 4'', ''Punch 5''], rows = [[Text ''E1'', Text ''09:10'', Text ''09:00'', Text ''-'', Text ''-'', Text ''-''], [Text ''E2'', Text ''09:00:00'', Text ''09:10:01'', Text ''-'', Text ''-'', Text ''-''], [Text ''E3'', Text ''09:00'', Text ''09:05'', Text ''09:30'', Text ''-'', Text ''-''], [Text ''E4'', Text ''09:00'', Text ''09:02'', Text ''09:04'', Text ''09:06'', Text ''12:00''], [Text ''E5'', Text ''09:00'', Text ''-'', Text ''-'', Text ''-'', Text ''-''], [Text ''E6'', Text ''-'', Text ''-'', Text ''-'', Text ''-'', Text ''-'']]\<rparr> ''Emp Code'')
   \<and> punches_of \<lparr>columns = [''Emp Code'', ''Punch 1'', ''Punch 2'', ''Punch 3'', ''Punch 4'', ''Punch 5''], rows = [[Text ''E1'', Text ''09:10'', Text ''09:00'', Text ''-'', Text ''-'', Text ''-''], [Text ''E2'', Text ''09:00:00'', Text ''09:10:01'', Text ''-'', Text ''-'', Text ''-''], [Text ''E3'', Text ''09:00'', Text ''09:05'', Text ''09:30'', Text ''-'', Text ''-''], [Text ''E4'', Text ''09:00'', Text ''09:02'', Text ''09:04'', Text ''09:06'', Text ''12:00''], [Text ''E5'', Text ''09:00'', Text ''-'', Text ''-'', Text ''-'', Text ''-''], [Text ''E6'', Text ''-'', Text ''-'', Text ''-'', Text ''-'', Text ''-'']]\<rparr> ''Emp Code'' ''E5'' = Inr [(9, 0, 0)]
   \<and> status_of \<lparr>columns = [''Emp Code'', ''Punch 1'', ''Punch 2'', ''Punch 3'', ''Punch 4'', ''Punch 5''], rows = [[Text ''E1'', Text ''09:10'', Text ''09:00'', Text ''-'', Text ''-'', Text ''-''], [Text ''E2'', Text ''09:00:00'', Text ''09:10:01'', Text ''-'', Text ''-'', Text ''-''], [Text ''E3'', Text ''09:00'', Text ''09:05'', Text ''09:30'', Text ''-'', Text ''-''], [Text ''E4'', Text ''09:00'', Text ''09:02'', Text ''09:04'', Text ''09:06'', Text ''12:00''], [Text ''E5'', Text ''09:00'', Text ''-'', Text ''-'', Text ''-'', Text ''-''], [Text ''E6'', Text ''-'', Text ''-'', Text ''-'', Text ''-'', Text ''-'']]\<rparr>
        \<lparr>columns = [''Emp Code'', ''Punch 1''], rows = [[Text ''E1'', Text ''18:00'']]\<rparr>
        ''Emp Code'' ''Emp Code'' ''E5'' ''hf'' = Inr ''Single In Punch''
   \<and> status_of \<lparr>columns = [''Emp Code'', ''Punch 1'', ''Punch 2'', ''Punch 3'', ''Punch 4'', ''Punch 5''], rows = [[Text ''E1'', Text ''09:10'', Text ''09:00'', Text ''-'', Text ''-'', Text ''-''], [Text ''E2'', Text ''09:00:00'', Text ''09:10:01'', Text ''-'', Text ''-'', Text ''-''], [Text ''E3'', Text ''09:00'', Text ''09:05'', Text ''09:30'', Text ''-'', Text ''-''], [Text ''E4'', Text ''09:00'', Text ''09:02'', Text ''09:04'', Text ''09:06'', Text ''12:00''], [Text ''E5'', Text ''09:00'', Text ''-'', Text ''-'', Text ''-'', Text ''-''], [Text ''E6'', Text ''-'', Text ''-'', Text ''-'', Text ''-'', Text ''-'']]\<rparr>
        \<lparr>columns = [''Emp Code''], rows = []\<rparr>
        ''Emp Code'' ''Emp Code'' ''E5'' ''hf'' = Inr ''Single In Punch''
   \<and> Text ''E6'' \<in> set (col_values \<lparr>columns = [''Emp Code'', ''Punch 1'', ''Punch 2'', ''Punch 3'', ''Punch 4'', ''Punch 5''], rows = [[Text ''E1'', Text ''09:10'', Text ''09:00'', Text ''-'', Text ''-'', Text ''-''], [Text ''E2'', Text ''09:00:00'', Text ''09:10:01'', Text ''-'', Text ''-'', Text ''-''], [Text ''E3'', Text ''09:00'', Text ''09:05'', Text ''09:30'', Text ''-'', Text ''-''], [Text ''E4'', Text ''09:00'', Text ''09:02'', Text ''09:04'', Text ''09:06'', Text ''12:00''], [Text ''E5'', Text ''09:00'', Text ''-'', Text ''-'', Text ''-'', Text ''-''], [Text ''E6'', Text ''-'', Text ''-'', Text ''-'', Text ''-'', Text ''-'']]\<rparr> ''Emp Code'')
   \<and> punches_of \<lparr>columns = [''Emp Code'', ''Punch 1'', ''Punch 2'', ''Punch 3'', ''Punch 4'', ''Punch 5''], rows = [[Text ''E1'', Text ''09:10'', Text ''09:00'', Text ''-'', Text ''-'', Text ''-''], [Text ''E2'', Text ''09:00:00'', Text ''09:10:01'', Text ''-'', Text ''-'', Text ''-''], [Text ''E3'', Text ''09:00'', Text ''09:05'', Text ''09:30'', Text ''-'', Text ''-''], [Text ''E4'', Text ''09:00'', Text ''09:02'', Text ''09:04'', Text ''09:06'', Text ''12:00''], [Text ''E5'', Text ''09:00'', Text ''-'', Text ''-'', Text ''-'', Text ''-''], [Text ''E6'', Text ''-'', Text ''-'', Text ''-'', Text ''-'', Text ''-'']]\<rparr> ''Emp Code'' ''E6'' = Inr []
   \<and> status_of \<lparr>columns = [''Emp Code'', ''Punch 1'', ''Punch 2'', ''Punch 3'', ''Punch 4'', ''Punch 5''], rows = [[Text ''E1'', Text ''09:10'', Text ''09:00'', Text ''-'', Text ''-'', Text ''-''], [Text ''E2'', Text ''09:00:00'', Text ''09:10:01'', Text ''-'', Text ''-'', Text ''-''], [Text ''E3'', Text ''09:00'', Text ''09:05'', Text ''09:30'', Text ''-'', Text ''-''], [Text ''E4'', Text ''09:00'', Text ''09:02'', Text ''09:04'', Text ''09:06'', Text ''12:00''], [Text ''E5'', Text ''09:00'', Text ''-'', Text ''-'', Text ''-'', Text ''-''], [Text ''E6'', Text ''-'', Text ''-'', Text ''-'', Text ''-'', Text ''-'']]\<rparr>
        \<lparr>columns = [''Emp Code'', ''Punch 1''], rows = [[Text ''E1'', Text ''18:00'']]\<rparr>
        ''Emp Code'' ''Emp Code'' ''E6'' ''hf'' = Inr ''No Punch''
   \<and> status_of \<lparr>columns = [''Emp Code'', ''Punch 1'', ''Punch 2'', ''Punch 3'', ''Punch 4'', ''Punch 5''], rows = [[Text ''E1'', Text ''09:10'', Text ''09:00'', Text ''-'', Text ''-'', Text ''-''], [Text ''E2'', Text ''09:00:00'', Text ''09:10:01'', Text ''-'', Text ''-'', Text ''-''], [Text ''E3'', Text ''09:00'', Text ''09:05'', Text ''09:30'', Text ''-'', Text ''-''], [Text ''E4'', Text ''09:00'', Text ''09:02'', Text ''09:04'', Text ''09:06'', Text ''12:00''], [Text ''E5'', Text ''09:00'', Text ''-'', Text ''-'', Text ''-'', Text ''-''], [Text ''E6'', Text ''-'', Text ''-'', Text ''-'', Text ''-'', Text ''-'']]\<rparr>
        \<lparr>columns = [''Emp Code''], rows = []\<rparr>
        ''Emp Code'' ''Emp Code'' ''E6'' ''hf'' = Inr ''No Punch''"
proof -
  let ?b1 = "\<lparr>columns = [''Emp Code'', ''Punch 1'', ''Punch 2'', ''Punch 3'', ''Punch 4'', ''Punch 5''], rows = [[Text ''E1'', Text ''09:10'', Text ''09:00'', Text ''-'', Text ''-'', Text ''-''], [Text ''E2'', Text ''09:00:00'', Text ''09:10:01'', Text ''-'', Text ''-'', Text ''-''], [Text ''E3'', Text ''09:00'', Text ''09:05'', Text ''09:30'', Text ''-'', Text ''-''], [Text ''E4'', Text ''09:00'', Text ''09:02'', Text ''09:04'', Text ''09:06'', Text ''12:00''], [Text ''E5'', Text ''09:00'', Text ''-'', Text ''-'', Text ''-'', Text ''-''], [Text ''E6'', Text ''-'', Text ''-'', Text ''-'', Text ''-'', Text ''-'']]\<rparr>"
  let ?b2 = "\<lparr>columns = [''Emp Code'', ''Punch 1''], rows = [[Text ''E1'', Text ''18:00'']]\<rparr>"
  let ?b3 = "\<lparr>columns = [''Emp Code''], rows = []\<rparr>"
  have n1: "\<not> sublist ''full'' ''hf''" by code_simp
  have n2: "\<not> sublist ''fn'' ''hf''" by code_simp
  have n3: "\<not> sublist ''day'' ''hf''" by code_simp
  have n4: "\<not> sublist ''morning'' ''hf''" by code_simp
  have d: "distinct (columns ?b1)" by simp
  have h0: "Text ''E1'' \<in> set (col_values ?b1 ''Emp Code'')" by code_simp
  have p0: "punches_of ?b1 ''Emp Code'' ''E1'' = Inr [(9, 0, 0), (9, 10, 0)]" by code_simp
  have q0: "punches_of ?b2 ''Emp Code'' ''E1'' = Inr [(18, 0, 0)]" by code_simp
  have r0: "punches_of ?b3 ''Emp Code'' ''E1'' = Inr []" by code_simp
  have s0: "status_of ?b1 ?b2 ''Emp Code'' ''Emp Code'' ''E1'' ''hf'' = Inr ''Single In Punch''
       \<and> status_of ?b1 ?b3 ''Emp Code'' ''Emp Code'' ''E1'' ''hf'' = Inr ''Single In Punch''"
    using other_shift_status [OF h0 n1 n2 n3 n4, of ?b2 "''Emp Code''" ?b3 "''Emp Code''"] p0 q0 r0 by simp
  have h1: "Text ''E2'' \<in> set (col_values ?b1 ''Emp Code'')" by code_simp
  have p1: "punches_of ?b1 ''Emp Code'' ''E2'' = Inr [(9, 0, 0), (9, 10, 1)]" by code_simp
  have q1: "punches_of ?b2 ''Emp Code'' ''E2'' = Inr []" by code_simp
  have r1: "punches_of ?b3 ''Emp Code'' ''E2'' = Inr []" by code_simp
  have s1: "status_of ?b1 ?b2 ''Emp Code'' ''Emp Code'' ''E2'' ''hf'' = Inr ''Match''
       \<and> status_of ?b1 ?b3 ''Emp Code'' ''Emp Code'' ''E2'' ''hf'' = Inr ''Match''"
    using other_shift_status [OF h1 n1 n2 n3 n4, of ?b2 "''Emp Code''" ?b3 "''Emp Code''"] p1 q1 r1 by simp
  have h2: "Text ''E3'' \<in> set (col_values ?b1 ''Emp Code'')" by code_simp
  have p2: "punches_of ?b1 ''Emp Code'' ''E3'' = Inr [(9, 0, 0), (9, 5, 0), (9, 30, 0)]" by code_simp
  have q2: "punches_of ?b2 ''Emp Code'' ''E3'' = Inr []" by code_simp
  have r2: "punches_of ?b3 ''Emp Code'' ''E3'' = Inr []" by code_simp
  have s2: "status_of ?b1 ?b2 ''Emp Code'' ''Emp Code'' ''E3'' ''hf'' = Inr ''Match''
       \<and> status_of ?b1 ?b3 ''Emp Code'' ''Emp Code'' ''E3'' ''hf'' = Inr ''Match''"
    using other_shift_status [OF h2 n1 n2 n3 n4, of ?b2 "''Emp Code''" ?b3 "''Emp Code''"] p2 q2 r2 by simp
  have h3: "Text ''E4'' \<in> set (col_values ?b1 ''Emp Code'')" by code_simp
  have p3: "punches_of ?b1 ''Emp Code'' ''E4'' = Inr [(9, 0, 0), (9, 2, 0), (9, 4, 0), (9, 6, 0), (12, 0, 0)]" by code_simp
  have q3: "punches_of ?b2 ''Emp Code'' ''E4'' = Inr []" by code_simp
  have r3: "punches_of ?b3 ''Emp Code'' ''E4'' = Inr []" by code_simp
  have s3: "status_of ?b1 ?b2 ''Emp Code'' ''Emp Code'' ''E4'' ''hf'' = Inr ''Single In Punch''
       \<and> status_of ?b1 ?b3 ''Emp Code'' ''Emp Code'' ''E4'' ''hf'' = Inr ''Single In Punch''"
    using other_shift_status [OF h3 n1 n2 n3 n4, of ?b2 "''Emp Code''" ?b3 "''Emp Code''"] p3 q3 r3 by simp
  have h4: "Text ''E5'' \<in> set (col_values ?b1 ''Emp Code'')" by code_simp
  have p4: "punches_of ?b1 ''Emp Code'' ''E5'' = Inr [(9, 0, 0)]" by code_simp
  have q4: "punches_of ?b2 ''Emp Code'' ''E5'' = Inr []" by code_simp
  have r4: "punches_of ?b3 ''Emp Code'' ''E5'' = Inr []" by code_simp
  have s4: "status_of ?b1 ?b2 ''Emp Code'' ''Emp Code'' ''E5'' ''hf'' = Inr ''Single In Punch''
       \<and> status_of ?b1 ?b3 ''Emp Code'' ''Emp Code'' ''E5'' ''hf'' = Inr ''Single In Punch''"
    using other_shift_status [OF h4 n1 n2 n3 n4, of ?b2 "''Emp Code''" ?b3 "''Emp Code''"] p4 q4 r4 by simp
  have h5: "Text ''E6'' \<in> set (col_values ?b1 ''Emp Code'')" by code_simp
  have p5: "punches_of ?b1 ''Emp Code'' ''E6'' = Inr []" by code_simp
  have q5: "punches_of ?b2 ''Emp Code'' ''E6'' = Inr []" by code_simp
  have r5: "punches_of ?b3 ''Emp Code'' ''E6'' = Inr []" by code_simp
  have s5: "status_of ?b1 ?b2 ''Emp Code'' ''Emp Code'' ''E6'' ''hf'' = Inr ''No Punch''
       \<and> status_of ?b1 ?b3 ''Emp Code'' ''Emp Code'' ''E6'' ''hf'' = Inr ''No Punch''"
    using other_shift_status [OF h5 n1 n2 n3 n4, of ?b2 "''Emp Code''" ?b3 "''Emp Code''"] p5 q5 r5 by simp
  show ?thesis
    using n1 n2 n3 n4 d h0 p0 s0 h1 p1 s1 h2 p2 s2 h3 p3 s3 h4 p4 s4 h5 p5 s5 by simp
qed

theorem absent_status_witness:
  "Text ''E9'' \<notin> set (col_values \<lparr>columns = [''Emp Code'', ''Punch 1''], rows = [[Text ''E1'', Text ''22:00'']]\<rparr> ''Emp Code'')
   \<and> status_of \<lparr>columns = [''Emp Code'', ''Punch 1''], rows = [[Text ''E1'', Text ''22:00'']]\<rparr>
        \<lparr>columns = [''Emp Code'', ''Punch 1''], rows = [[Text ''E9'', Text ''06:00'']]\<rparr>
        ''Emp Code'' ''Emp Code'' ''E9'' ''full night'' = Inr ''No Punch''
   \<and> status_of \<lparr>columns = [''Emp Code'', ''Punch 1''], rows = [[Text ''E1'', Text ''22:00'']]\<rparr>
        \<lparr>columns = [''Emp Code'', ''Punch 1'', ''Punch 1''], rows = [[Text ''E9'', Text ''06:00'', Text ''07:00'']]\<rparr>
        ''Emp Code'' ''Emp Code'' ''E9'' ''day'' = Inr ''No Punch''"
proof -
  let ?b1 = "\<lparr>columns = [''Emp Code'', ''Punch 1''], rows = [[Text ''E1'', Text ''22:00'']]\<rparr>"
  have h1: "Text ''E9'' \<notin> set (col_values ?b1 ''Emp Code'')" by code_simp
  show ?thesis
    using absent_status [OF h1] h1 by simp
qed

text \<open>
  The error paths of the collection on examples: two labels that contain \<open>PUNCH\<close> and
  are equal after trimming make line 95 raise once a row is matched, and not before; an
  id label that is not in the frame raises KeyError.
\<close>

lemma collection_error_examples:
  "punches_of \<lparr>columns = [''Emp Code'', ''Punch 1'', ''Punch 1''],
                rows = [[Text ''E1'', Text ''09:00'', Text ''18:00'']]\<rparr> ''Emp Code'' ''E1''
     = Inl ValueError
   \<and> punches_of \<lparr>columns = [''Emp Code'', ''Punch 1'', ''Punch 1''],
                rows = [[Text ''E1'', Text ''09:00'', Text ''18:00'']]\<rparr> ''Emp Code'' ''E2''
     = Inr []
   \<and> punches_of \<lparr>columns = [''Emp Code'', ''Name'', ''Name'', ''Punch 1''],
                rows = [[Text ''E1'', Text ''x'', Text ''y'', Text ''09:00'']]\<rparr> ''Emp Code'' ''E1''
     = Inr [(9, 0, 0)]
   \<and> punches_of \<lparr>columns = [''Emp Code'', ''Punch 1''],
                rows = [[Text ''E1'', Text ''09:00'']]\<rparr> ''Pay Code'' ''E1''
     = Inl KeyError
   \<and> status_of \<lparr>columns = [''Emp Code'', ''Punch 1''], rows = [[Text ''E1'', Text ''09:00'']]\<rparr>
        \<lparr>columns = [''Emp Code'', ''Punch 1'', ''Punch 1''],
          rows = [[Text ''E1'', Text ''09:00'', Text ''18:00'']]\<rparr>
        ''Emp Code'' ''Emp Code'' ''E1'' ''hf'' = Inl ValueError"
  by code_simp

section \<open>Properties of the column resolver\<close>

lemma scan_cols_find: "scan_cols name cols = List.find (header_has name) cols"
  by (induction cols) auto

lemma scan_names_None:
  "(\<forall>n \<in> set names. scan_cols n cols = None) \<Longrightarrow> scan_names names cols = None"
  by (induction names) auto

lemma scan_names_Some:
  "k < length names \<Longrightarrow> (\<forall>j<k. scan_cols (names ! j) cols = None)
   \<Longrightarrow> scan_cols (names ! k) cols = Some c \<Longrightarrow> scan_names names cols = Some c"
proof (induction names arbitrary: k)
  case Nil
  then show ?case by simp
next
  case (Cons n names)
  show ?case
  proof (cases k)
    case 0
    with Cons.prems show ?thesis by simp
  next
    case (Suc k')
    from Cons.prems(2) Suc have "scan_cols n cols = None" by auto
    moreover have "scan_names names cols = Some c"
    proof (rule Cons.IH [of k'])
      show "k' < length names" using Cons.prems(1) Suc by simp
      show "\<forall>j<k'. scan_cols (names ! j) cols = None"
        using Cons.prems(2) Suc by auto
      show "scan_cols (names ! k') cols = Some c"
        using Cons.prems(3) Suc by simp
    qed
    ultimately show ?thesis by simp
  qed
qed

text \<open>
  Claim C9. On a non-empty list of headers \<open>find_emp_col\<close> tries the phrases
  \<open>pay code\<close>, \<open>emp code\<close>, \<open>employee code\<close>, \<open>empid\<close>, \<open>emp id\<close>, \<open>code\<close> in that
  order, each against the headers from left to right, a header matching when its
  trimmed, lowercased text contains the phrase; it returns the leftmost header matching
  the first phrase that matches any header, and the first header when none matches.
\<close>

theorem find_emp_col_priority:
  assumes "cols \<noteq> []"
  shows "possible = [''pay code'', ''emp code'', ''employee code'', ''empid'', ''emp id'', ''code'']
     \<and> (\<forall>name c. header_has name c = (\<exists>pre post. py_lower (py_strip c) = pre @ name @ post))
     \<and> (\<forall>k i. k < length possible \<and> i < length cols
            \<and> (\<forall>j<k. \<forall>c \<in> set cols. \<not> header_has (possible ! j) c)
            \<and> header_has (possible ! k) (cols ! i)
            \<and> (\<forall>i'<i. \<not> header_has (possible ! k) (cols ! i'))
          \<longrightarrow> find_emp_col cols = Inr (cols ! i))
     \<and> ((\<forall>name \<in> set possible. \<forall>c \<in> set cols. \<not> header_has name c)
          \<longrightarrow> find_emp_col cols = Inr (cols ! 0))"
proof (intro conjI allI impI)
  show "possible = [''pay code'', ''emp code'', ''employee code'', ''empid'', ''emp id'', ''code'']"
    by (rule possible_def)
next
  fix name c
  show "header_has name c = (\<exists>pre post. py_lower (py_strip c) = pre @ name @ post)"
    unfolding header_has_def sublist_def ..
next
  fix k i
  assume a: "k < length possible \<and> i < length cols
            \<and> (\<forall>j<k. \<forall>c \<in> set cols. \<not> header_has (possible ! j) c)
            \<and> header_has (possible ! k) (cols ! i)
            \<and> (\<forall>i'<i. \<not> header_has (possible ! k) (cols ! i'))"
  then have "\<forall>j<k. scan_cols (possible ! j) cols = None"
    by (simp add: scan_cols_find find_None_iff)
  moreover from a have "scan_cols (possible ! k) cols = Some (cols ! i)"
    unfolding scan_cols_find find_Some_iff by blast
  ultimately have "scan_names possible cols = Some (cols ! i)"
    using a scan_names_Some by blast
  then show "find_emp_col cols = Inr (cols ! i)"
    unfolding find_emp_col_def by simp
next
  assume "\<forall>name \<in> set possible. \<forall>c \<in> set cols. \<not> header_has name c"
  then have "scan_names possible cols = None"
    by (intro scan_names_None) (simp add: scan_cols_find find_None_iff)
  then show "find_emp_col cols = Inr (cols ! 0)"
    using assms unfolding find_emp_col_def by (cases cols) simp_all
qed

theorem find_emp_col_priority_witness:
  "[''Name'', '' EMP Code '', ''Pay Code'', ''Code''] \<noteq> []
   \<and> find_emp_col [''Name'', '' EMP Code '', ''Pay Code'', ''Code''] = Inr ''Pay Code''
   \<and> [''Name'', ''Punch 1''] \<noteq> []
   \<and> find_emp_col [''Name'', ''Punch 1''] = Inr ''Name''"
proof -
  let ?cols = "[''Name'', '' EMP Code '', ''Pay Code'', ''Code'']"
  let ?none = "[''Name'', ''Punch 1'']"
  have ne: "?cols \<noteq> []" and ne': "?none \<noteq> []" by simp_all
  have hit: "header_has (possible ! 0) (?cols ! 2)" by code_simp
  have m0: "\<not> header_has (possible ! 0) (?cols ! 0)" by code_simp
  have m1: "\<not> header_has (possible ! 0) (?cols ! 1)" by code_simp
  have miss: "\<forall>i'<2. \<not> header_has (possible ! 0) (?cols ! i')"
  proof (intro allI impI)
    fix i' :: nat assume "i' < 2"
    then have "i' = 0 \<or> i' = 1" by arith
    then show "\<not> header_has (possible ! 0) (?cols ! i')" using m0 m1 by blast
  qed
  have len: "0 < length possible" by (simp add: possible_def)
  have pre: "0 < length possible \<and> 2 < length ?cols
            \<and> (\<forall>j<0. \<forall>c \<in> set ?cols. \<not> header_has (possible ! j) c)
            \<and> header_has (possible ! 0) (?cols ! 2)
            \<and> (\<forall>i'<2. \<not> header_has (possible ! 0) (?cols ! i'))"
    using len hit miss by simp
  note spec3 = conjunct1 [OF conjunct2 [OF conjunct2 [OF find_emp_col_priority [OF ne]]]]
  have a: "find_emp_col ?cols = Inr (?cols ! 2)"
    by (rule mp [OF spec [OF spec [OF spec3]] pre])
  have n1: "\<not> header_has name ''Name''" if "name \<in> set possible" for name
    using that unfolding possible_def by (auto; code_simp)
  have n2: "\<not> header_has name ''Punch 1''" if "name \<in> set possible" for name
    using that unfolding possible_def by (auto; code_simp)
  have none: "\<forall>name \<in> set possible. \<forall>c \<in> set ?none. \<not> header_has name c"
    using n1 n2 by simp
  note spec4 = conjunct2 [OF conjunct2 [OF conjunct2 [OF find_emp_col_priority [OF ne']]]]
  have b: "find_emp_col ?none = Inr (?none ! 0)"
    by (rule mp [OF spec4 none])
  show ?thesis using a b by simp
qed

section \<open>Properties of the reconciliation driver\<close>

lemma index_of_Nil: "index_of c [] = 0"
  unfolding index_of_def by simp

lemma index_of_Cons: "index_of c (x # xs) = (if x = c then 0 else Suc (index_of c xs))"
  unfolding index_of_def by simp

lemma index_of_less: "c \<in> set cols \<Longrightarrow> index_of c cols < length cols"
  by (induction cols) (auto simp: index_of_Cons)

lemma nth_index_of: "c \<in> set cols \<Longrightarrow> cols ! index_of c cols = c"
  by (induction cols) (auto simp: index_of_Cons)

lemma index_of_append_new: "c \<notin> set cols \<Longrightarrow> index_of c (cols @ [c]) = length cols"
  by (induction cols) (auto simp: index_of_Cons index_of_Nil)

lemma index_of_inj:
  assumes "c \<in> set cols" and "c' \<in> set cols" and "index_of c cols = index_of c' cols"
  shows "c = c'"
proof -
  have "c = cols ! index_of c cols" by (rule nth_index_of [OF assms(1), symmetric])
  also have "\<dots> = cols ! index_of c' cols" by (simp only: assms(3))
  also have "\<dots> = c'" by (rule nth_index_of [OF assms(2)])
  finally show ?thesis .
qed

lemma cell_of_nth:
  "length r = length cols \<Longrightarrow> c \<in> set cols \<Longrightarrow> cell_of cols r c = Some (r ! index_of c cols)"
  unfolding cell_of_def
  by (induction cols arbitrary: r) (case_tac r; auto simp: index_of_Cons)+

lemma col_cells_nth:
  "\<forall>r \<in> set rws. length r = length cols \<Longrightarrow> c \<in> set cols
   \<Longrightarrow> concat (map (\<lambda>r. case cell_of cols r c of Some v \<Rightarrow> [v] | None \<Rightarrow> []) rws)
       = map (\<lambda>r. r ! index_of c cols) rws"
  by (induction rws) (simp_all add: cell_of_nth)

lemma col_values_nth:
  assumes "\<forall>r \<in> set (rows f). length r = length (columns f)" and "c \<in> set (columns f)"
  shows "col_values f c = map (\<lambda>r. r ! index_of c (columns f)) (rows f)"
  unfolding col_values_def by (rule col_cells_nth [OF assms])

lemma statuses_loop_Inr:
  "statuses_loop b1 b2 c1 c2 ids cols m s rws = Inr sts
   \<Longrightarrow> length sts = length rws
       \<and> set sts \<subseteq> {''Match'', ''No Punch'', ''Early'', ''Single In Punch'', ''Single Out Punch''}"
proof (induction rws arbitrary: sts)
  case Nil
  then show ?case by simp
next
  case (Cons row rest)
  from Cons.prems obtain emp st sts' where
    e: "cell_of cols row m = Some emp"
    and r: "row_status b1 b2 c1 c2 ids emp (row_shift cols s row) = Inr st"
    and l: "statuses_loop b1 b2 c1 c2 ids cols m s rest = Inr sts'"
    and s: "sts = st # sts'"
    by (auto split: option.splits sum.splits if_splits)
  from Cons.IH [OF l] row_status_labels [OF r]
  show ?case unfolding s by simp
qed

lemma statuses_loop_nth:
  "statuses_loop b1 b2 c1 c2 ids cols m s rws = Inr sts \<Longrightarrow> i < length rws
   \<Longrightarrow> \<exists>emp. cell_of cols (rws ! i) m = Some emp
          \<and> row_status b1 b2 c1 c2 ids emp (row_shift cols s (rws ! i)) = Inr (sts ! i)"
proof (induction rws arbitrary: sts i)
  case Nil
  then show ?case by simp
next
  case (Cons row rest)
  from Cons.prems(1) obtain emp st sts' where
    e: "cell_of cols row m = Some emp"
    and r: "row_status b1 b2 c1 c2 ids emp (row_shift cols s row) = Inr st"
    and l: "statuses_loop b1 b2 c1 c2 ids cols m s rest = Inr sts'"
    and s: "sts = st # sts'"
    by (auto split: option.splits sum.splits if_splits)
  show ?case
  proof (cases i)
    case 0
    then show ?thesis using e r s by simp
  next
    case (Suc j)
    then have "j < length rest" using Cons.prems(2) by simp
    from Cons.IH [OF l this] show ?thesis using Suc s by simp
  qed
qed

lemma columns_map_column: "columns (map_column g c f) = columns f"
  by (simp add: map_column_def)

lemma rows_map_column:
  "i < length (rows f) \<Longrightarrow>
   rows (map_column g c f) ! i
     = (rows f ! i)[index_of c (columns f) := g (rows f ! i ! index_of c (columns f))]"
  by (simp add: map_column_def)

lemma length_rows_map_column: "length (rows (map_column g c f)) = length (rows f)"
  by (simp add: map_column_def)

lemma date_label:
  assumes "filter (\<lambda>c. sublist ''date'' (py_lower c)) cols = d # ds"
  shows "d \<in> set cols"
proof -
  have "d \<in> set (filter (\<lambda>c. sublist ''date'' (py_lower c)) cols)"
    unfolding assms by simp
  then show ?thesis by simp
qed

text \<open>The roster after line 66, cell by cell.\<close>

lemma coerce_dates_Inr:
  assumes rect: "rectangular attendance"
      and res: "coerce_dates dt (strip_columns attendance) = Inr md0"
  shows "columns md0 = map py_strip (columns attendance)"
    and "length (rows md0) = length (rows attendance)"
    and "i < length (rows attendance) \<Longrightarrow> length (rows md0 ! i) = length (columns attendance)"
    and "i < length (rows attendance) \<Longrightarrow> j < length (columns attendance)
         \<Longrightarrow> rows md0 ! i ! j = dated_cell dt attendance i j"
proof -
  let ?f = "strip_columns attendance"
  let ?cols = "map py_strip (columns attendance)"
  have cf: "columns ?f = ?cols" and rf: "rows ?f = rows attendance"
    by (simp_all add: strip_columns_def)
  have lens: "\<forall>r \<in> set (rows ?f). length r = length (columns ?f)"
    using rect unfolding rectangular_def rf cf by (simp add: list_all_iff)
  have lr: "length (rows attendance ! i) = length (columns attendance)"
    if "i < length (rows attendance)" for i
    using rect that unfolding rectangular_def by (simp add: list_all_iff)
  show "columns md0 = ?cols"
    using res unfolding coerce_dates_def
    by (auto split: list.splits if_splits simp: cf columns_map_column)
  show "length (rows md0) = length (rows attendance)"
    using res unfolding coerce_dates_def
    by (auto split: list.splits if_splits simp: rf length_rows_map_column)
  show "length (rows md0 ! i) = length (columns attendance)" if i: "i < length (rows attendance)"
    using res lr [OF i] i unfolding coerce_dates_def
    by (auto split: list.splits if_splits simp: rf rows_map_column)
  show "rows md0 ! i ! j = dated_cell dt attendance i j"
    if i: "i < length (rows attendance)" and j: "j < length (columns attendance)"
  proof (cases "filter (\<lambda>c. sublist ''date'' (py_lower c)) ?cols")
    case Nil
    then have "md0 = ?f" using res unfolding coerce_dates_def cf by simp
    moreover have "date_position ?cols = None" unfolding date_position_def Nil by simp
    ultimately show ?thesis unfolding dated_cell_def by (simp add: rf)
  next
    case (Cons d ds)
    let ?k = "index_of d ?cols"
    let ?r = "rows attendance ! i"
    have d: "d \<in> set ?cols" by (rule date_label [OF Cons])
    have k: "?k < length ?r" using index_of_less [OF d] lr [OF i] by simp
    have cv: "col_values ?f d = map (\<lambda>r. r ! ?k) (rows attendance)"
      using col_values_nth [OF lens, of d] d unfolding cf rf by simp
    have md0: "md0 = map_column (dt (col_values ?f d)) d ?f"
      using res unfolding coerce_dates_def cf Cons by (simp split: if_splits)
    have row: "rows md0 ! i = ?r[?k := dt (map (\<lambda>r. r ! ?k) (rows attendance)) (?r ! ?k)]"
      unfolding md0 using i rows_map_column [of i ?f] by (simp add: rf cf cv)
    have dp: "date_position ?cols = Some ?k" unfolding date_position_def Cons by simp
    show ?thesis
      unfolding row dated_cell_def dp using k by (auto simp: nth_list_update)
  qed
qed

lemma compare_files_Inr:
  assumes "compare_files dt attendance bio1_raw bio2_raw = Inr out"
  shows "\<exists>md0 c1 c2 b1 b2 sts.
       coerce_dates dt (strip_columns attendance) = Inr md0
     \<and> next_col ''emp id'' (columns md0) ''EMP ID'' \<in> set (columns md0)
     \<and> find_emp_col (columns (strip_columns (dedupe_columns_inplace bio1_raw))) = Inr c1
     \<and> find_emp_col (columns (strip_columns (dedupe_columns_inplace bio2_raw))) = Inr c2
     \<and> clean_column c1 (strip_columns (dedupe_columns_inplace bio1_raw)) = Inr b1
     \<and> clean_column c2 (strip_columns (dedupe_columns_inplace bio2_raw)) = Inr b2
     \<and> statuses_loop (replace_blank b1) (replace_blank b2) c1 c2
          (col_values (replace_blank b1) c1) (columns md0)
          (next_col ''emp id'' (columns md0) ''EMP ID'')
          (next_col ''shift'' (columns md0) ''SHIFT'')
          (rows (map_column (\<lambda>v. Text (clean_id (Text (py_str v))))
                  (next_col ''emp id'' (columns md0) ''EMP ID'') md0)) = Inr sts
     \<and> out = set_column ''Status'' (map Text sts)
          (map_column (\<lambda>v. Text (clean_id (Text (py_str v))))
             (next_col ''emp id'' (columns md0) ''EMP ID'') md0)"
proof -
  from assms obtain md0 where
    md0: "coerce_dates dt (strip_columns attendance) = Inr md0"
    unfolding compare_files_def by (auto split: sum.splits)
  let ?m = "next_col ''emp id'' (columns md0) ''EMP ID''"
  let ?md = "map_column (\<lambda>v. Text (clean_id (Text (py_str v)))) ?m md0"
  from assms obtain c1 c2 b1 b2 sts where
    m: "?m \<in> set (columns md0)"
    and f1: "find_emp_col (columns (strip_columns (dedupe_columns_inplace bio1_raw))) = Inr c1"
    and f2: "find_emp_col (columns (strip_columns (dedupe_columns_inplace bio2_raw))) = Inr c2"
    and k1: "clean_column c1 (strip_columns (dedupe_columns_inplace bio1_raw)) = Inr b1"
    and k2: "clean_column c2 (strip_columns (dedupe_columns_inplace bio2_raw)) = Inr b2"
    and l: "statuses_loop (replace_blank b1) (replace_blank b2) c1 c2
              (col_values (replace_blank b1) c1) (columns ?md) ?m
              (next_col ''shift'' (columns ?md) ''SHIFT'') (rows ?md) = Inr sts"
    and out: "out = set_column ''Status'' (map Text sts) ?md"
    unfolding compare_files_def md0 Let_def sum.case
    by (cases "clean_column ?m md0")
       (auto split: sum.splits if_splits simp: clean_column_def [of ?m md0])
  from l have "statuses_loop (replace_blank b1) (replace_blank b2) c1 c2
              (col_values (replace_blank b1) c1) (columns md0) ?m
              (next_col ''shift'' (columns md0) ''SHIFT'') (rows ?md) = Inr sts"
    by (simp only: columns_map_column)
  with md0 m f1 f2 k1 k2 out show ?thesis by blast
qed

lemma next_col_cases:
  "next_col name cols d = d \<or> sublist name (py_lower (next_col name cols d))"
proof (cases "filter (\<lambda>c. sublist name (py_lower c)) cols")
  case Nil
  then show ?thesis by (simp add: next_col_def)
next
  case (Cons c cs)
  then have "c \<in> set (filter (\<lambda>c. sublist name (py_lower c)) cols)" by simp
  then have "sublist name (py_lower c)" by simp
  then show ?thesis using Cons by (simp add: next_col_def)
qed

lemma m_emp_not_Status: "next_col ''emp id'' cols ''EMP ID'' \<noteq> ''Status''"
proof
  assume a: "next_col ''emp id'' cols ''EMP ID'' = ''Status''"
  have "\<not> sublist ''emp id'' (py_lower ''Status'')" by code_simp
  then show False using next_col_cases [of "''emp id''" cols "''EMP ID''"] unfolding a by simp
qed

lemma clean_id_str: "clean_id (Text (py_str v)) = clean_id v"
  by (simp add: clean_id_def py_str_def)

text \<open>The returned table, cell by cell.\<close>

lemma output_cells:
  assumes rect: "rectangular attendance"
      and md0: "coerce_dates dt (strip_columns attendance) = Inr md0"
      and m: "next_col ''emp id'' (map py_strip (columns attendance)) ''EMP ID''
                \<in> set (map py_strip (columns attendance))"
      and len: "length sts = length (rows attendance)"
      and out: "out = set_column ''Status'' (map Text sts)
                  (map_column (\<lambda>v. Text (clean_id (Text (py_str v))))
                     (next_col ''emp id'' (map py_strip (columns attendance)) ''EMP ID'') md0)"
  shows "length (rows out) = length (rows attendance)
     \<and> columns out =
         (if ''Status'' \<in> set (map py_strip (columns attendance))
          then map py_strip (columns attendance)
          else map py_strip (columns attendance) @ [''Status''])
     \<and> (\<forall>i < length (rows attendance).
           length (rows out ! i) = length (columns out)
         \<and> (\<forall>j < length (columns out).
               rows out ! i ! j =
                 (if j = index_of ''Status'' (columns out) then Text (sts ! i)
                  else if j = index_of (next_col ''emp id'' (map py_strip (columns attendance)) ''EMP ID'')
                                (map py_strip (columns attendance))
                       then Text (clean_id (dated_cell dt attendance i j))
                       else dated_cell dt attendance i j)))"
proof -
  let ?cols = "map py_strip (columns attendance)"
  let ?m = "next_col ''emp id'' ?cols ''EMP ID''"
  let ?km = "index_of ?m ?cols"
  let ?g = "\<lambda>v. Text (clean_id (Text (py_str v)))"
  note cd = coerce_dates_Inr [OF rect md0]
  have c0: "columns md0 = ?cols" by (rule cd(1))
  have n0: "length (rows md0) = length (rows attendance)" by (rule cd(2))
  let ?md = "map_column ?g ?m md0"
  have cmd: "columns ?md = ?cols" by (simp add: columns_map_column c0)
  have nmd: "length (rows ?md) = length (rows attendance)"
    by (simp add: length_rows_map_column n0)
  have km: "?km < length ?cols" by (rule index_of_less [OF m])
  have r1: "rows ?md ! i = (rows md0 ! i)[?km := ?g (rows md0 ! i ! ?km)]"
    if "i < length (rows attendance)" for i
    using rows_map_column [of i md0 ?g ?m] that unfolding c0 n0 by simp
  have l1: "length (rows ?md ! i) = length ?cols" if "i < length (rows attendance)" for i
    unfolding r1 [OF that] using cd(3) [OF that] by simp
  have c1: "rows ?md ! i ! j =
      (if j = ?km then Text (clean_id (dated_cell dt attendance i j))
       else dated_cell dt attendance i j)"
    if i: "i < length (rows attendance)" and j: "j < length ?cols" for i j
  proof -
    have lr0: "length (rows md0 ! i) = length ?cols" using cd(3) [OF i] by simp
    have j': "j < length (columns attendance)" using j by simp
    have km': "?km < length (columns attendance)" using km by simp
    show ?thesis
      unfolding r1 [OF i]
      using j km lr0 cd(4) [OF i j'] cd(4) [OF i km']
      by (simp add: nth_list_update clean_id_str)
  qed
  show ?thesis
  proof (cases "''Status'' \<in> set ?cols")
    case True
    let ?ks = "index_of ''Status'' ?cols"
    have co: "columns out = ?cols" using True cmd by (simp add: out set_column_def)
    have ro: "rows out = map (\<lambda>(r, v). r[?ks := v]) (zip (rows ?md) (map Text sts))"
      using True cmd by (simp add: out set_column_def)
    have no: "length (rows out) = length (rows attendance)"
      unfolding ro using nmd len by simp
    have row: "rows out ! i = (rows ?md ! i)[?ks := Text (sts ! i)]"
      if "i < length (rows attendance)" for i
      unfolding ro using that nmd len by simp
    have ks: "?ks < length ?cols" by (rule index_of_less [OF True])
    have "length (rows out ! i) = length (columns out)
         \<and> (\<forall>j < length (columns out).
               rows out ! i ! j =
                 (if j = index_of ''Status'' (columns out) then Text (sts ! i)
                  else if j = ?km then Text (clean_id (dated_cell dt attendance i j))
                       else dated_cell dt attendance i j))"
      if i: "i < length (rows attendance)" for i
      unfolding co row [OF i]
      using l1 [OF i] c1 [OF i] ks by (simp add: nth_list_update)
    note pr = this
    show ?thesis
    proof (intro conjI)
      show "length (rows out) = length (rows attendance)" by (rule no)
      show "columns out = (if ''Status'' \<in> set ?cols then ?cols else ?cols @ [''Status''])"
        using True co by simp
      show "\<forall>i < length (rows attendance).
           length (rows out ! i) = length (columns out)
         \<and> (\<forall>j < length (columns out).
               rows out ! i ! j =
                 (if j = index_of ''Status'' (columns out) then Text (sts ! i)
                  else if j = ?km then Text (clean_id (dated_cell dt attendance i j))
                       else dated_cell dt attendance i j))"
        using pr by blast
    qed
  next
    case False
    have co: "columns out = ?cols @ [''Status'']" using False cmd by (simp add: out set_column_def)
    have ro: "rows out = map (\<lambda>(r, v). r @ [v]) (zip (rows ?md) (map Text sts))"
      using False cmd by (simp add: out set_column_def)
    have no: "length (rows out) = length (rows attendance)"
      unfolding ro using nmd len by simp
    have row: "rows out ! i = rows ?md ! i @ [Text (sts ! i)]"
      if "i < length (rows attendance)" for i
      unfolding ro using that nmd len by simp
    have ks: "index_of ''Status'' (?cols @ [''Status'']) = length ?cols"
      by (rule index_of_append_new [OF False])
    have "length (rows out ! i) = length (columns out)
         \<and> (\<forall>j < length (columns out).
               rows out ! i ! j =
                 (if j = index_of ''Status'' (columns out) then Text (sts ! i)
                  else if j = ?km then Text (clean_id (dated_cell dt attendance i j))
                       else dated_cell dt attendance i j))"
      if i: "i < length (rows attendance)" for i
      unfolding co row [OF i] ks
      using l1 [OF i] c1 [OF i] km by (auto simp: nth_append less_Suc_eq)
    note pr = this
    show ?thesis
    proof (intro conjI)
      show "length (rows out) = length (rows attendance)" by (rule no)
      show "columns out = (if ''Status'' \<in> set ?cols then ?cols else ?cols @ [''Status''])"
        using False co by simp
      show "\<forall>i < length (rows attendance).
           length (rows out ! i) = length (columns out)
         \<and> (\<forall>j < length (columns out).
               rows out ! i ! j =
                 (if j = index_of ''Status'' (columns out) then Text (sts ! i)
                  else if j = ?km then Text (clean_id (dated_cell dt attendance i j))
                       else dated_cell dt attendance i j))"
        using pr by blast
    qed
  qed
qed

text \<open>
  What a returned table is made of: the statuses of the loop, one per roster row and
  none of them \<open>Mismatch\<close>, written into the roster as it stands after line 80.
\<close>

lemma compare_files_parts:
  assumes rect: "rectangular attendance"
      and res: "compare_files dt attendance bio1_raw bio2_raw = Inr out"
  shows "\<exists>md0 c1 c2 b1 b2 sts.
       coerce_dates dt (strip_columns attendance) = Inr md0
     \<and> columns md0 = map py_strip (columns attendance)
     \<and> next_col ''emp id'' (map py_strip (columns attendance)) ''EMP ID''
         \<in> set (map py_strip (columns attendance))
     \<and> find_emp_col (columns (strip_columns (dedupe_columns_inplace bio1_raw))) = Inr c1
     \<and> find_emp_col (columns (strip_columns (dedupe_columns_inplace bio2_raw))) = Inr c2
     \<and> clean_column c1 (strip_columns (dedupe_columns_inplace bio1_raw)) = Inr b1
     \<and> clean_column c2 (strip_columns (dedupe_columns_inplace bio2_raw)) = Inr b2
     \<and> statuses_loop (replace_blank b1) (replace_blank b2) c1 c2
          (col_values (replace_blank b1) c1) (map py_strip (columns attendance))
          (next_col ''emp id'' (map py_strip (columns attendance)) ''EMP ID'')
          (next_col ''shift'' (map py_strip (columns attendance)) ''SHIFT'')
          (rows (map_column (\<lambda>v. Text (clean_id (Text (py_str v))))
                  (next_col ''emp id'' (map py_strip (columns attendance)) ''EMP ID'') md0)) = Inr sts
     \<and> length sts = length (rows attendance)
     \<and> set sts \<subseteq> {''Match'', ''No Punch'', ''Early'', ''Single In Punch'', ''Single Out Punch''}
     \<and> out = set_column ''Status'' (map Text sts)
          (map_column (\<lambda>v. Text (clean_id (Text (py_str v))))
             (next_col ''emp id'' (map py_strip (columns attendance)) ''EMP ID'') md0)"
proof -
  let ?g = "\<lambda>v. Text (clean_id (Text (py_str v)))"
  from compare_files_Inr [OF res] obtain md0 c1 c2 b1 b2 sts where
    md0: "coerce_dates dt (strip_columns attendance) = Inr md0"
    and m0: "next_col ''emp id'' (columns md0) ''EMP ID'' \<in> set (columns md0)"
    and f1: "find_emp_col (columns (strip_columns (dedupe_columns_inplace bio1_raw))) = Inr c1"
    and f2: "find_emp_col (columns (strip_columns (dedupe_columns_inplace bio2_raw))) = Inr c2"
    and k1: "clean_column c1 (strip_columns (dedupe_columns_inplace bio1_raw)) = Inr b1"
    and k2: "clean_column c2 (strip_columns (dedupe_columns_inplace bio2_raw)) = Inr b2"
    and l0: "statuses_loop (replace_blank b1) (replace_blank b2) c1 c2
          (col_values (replace_blank b1) c1) (columns md0)
          (next_col ''emp id'' (columns md0) ''EMP ID'')
          (next_col ''shift'' (columns md0) ''SHIFT'')
          (rows (map_column ?g (next_col ''emp id'' (columns md0) ''EMP ID'') md0)) = Inr sts"
    and out0: "out = set_column ''Status'' (map Text sts)
          (map_column ?g (next_col ''emp id'' (columns md0) ''EMP ID'') md0)"
    by blast
  note cd = coerce_dates_Inr [OF rect md0]
  have c0: "columns md0 = map py_strip (columns attendance)" by (rule cd(1))
  have len: "length sts = length (rows attendance)"
    using statuses_loop_Inr [OF l0] by (simp add: length_rows_map_column cd(2))
  have lab: "set sts \<subseteq> {''Match'', ''No Punch'', ''Early'', ''Single In Punch'', ''Single Out Punch''}"
    using statuses_loop_Inr [OF l0] by simp
  show ?thesis
    using md0 c0 m0 [unfolded c0] f1 f2 k1 k2 l0 [unfolded c0] len lab out0 [unfolded c0]
    by blast
qed

lemma compare_files_cells:
  assumes rect: "rectangular attendance"
      and res: "compare_files dt attendance bio1 bio2 = Inr out"
  shows "\<exists>sts. length sts = length (rows attendance)
     \<and> set sts \<subseteq> {''Match'', ''No Punch'', ''Early'', ''Single In Punch'', ''Single Out Punch''}
     \<and> next_col ''emp id'' (map py_strip (columns attendance)) ''EMP ID''
         \<in> set (map py_strip (columns attendance))
     \<and> length (rows out) = length (rows attendance)
     \<and> columns out =
         (if ''Status'' \<in> set (map py_strip (columns attendance))
          then map py_strip (columns attendance)
          else map py_strip (columns attendance) @ [''Status''])
     \<and> (\<forall>i < length (rows attendance).
           length (rows out ! i) = length (columns out)
         \<and> (\<forall>j < length (columns out).
               rows out ! i ! j =
                 (if j = index_of ''Status'' (columns out) then Text (sts ! i)
                  else if j = index_of (next_col ''emp id'' (map py_strip (columns attendance)) ''EMP ID'')
                                (map py_strip (columns attendance))
                       then Text (clean_id (dated_cell dt attendance i j))
                       else dated_cell dt attendance i j)))"
proof -
  from compare_files_parts [OF rect res] obtain md0 sts where
    md0: "coerce_dates dt (strip_columns attendance) = Inr md0"
    and m: "next_col ''emp id'' (map py_strip (columns attendance)) ''EMP ID''
              \<in> set (map py_strip (columns attendance))"
    and len: "length sts = length (rows attendance)"
    and lab: "set sts \<subseteq> {''Match'', ''No Punch'', ''Early'', ''Single In Punch'', ''Single Out Punch''}"
    and out: "out = set_column ''Status'' (map Text sts)
          (map_column (\<lambda>v. Text (clean_id (Text (py_str v))))
             (next_col ''emp id'' (map py_strip (columns attendance)) ''EMP ID'') md0)"
    by blast
  from output_cells [OF rect md0 m len out] len lab m
  show ?thesis by (intro exI [of _ sts]) simp
qed

text \<open>
  Claim C5, amended. Whenever \<open>compare_files\<close> returns on a roster table (one cell per
  label in every row), the output has the roster's row count and row order; its labels
  are the roster's trimmed labels, followed by one trailing \<open>Status\<close> label unless the
  roster already has a column of that name, which is then overwritten where it stands;
  the roster has an employee-id column; and in every row the Status cell is one of the
  six labels, the employee-id cell is the normalized key of the roster's cell as it
  stands after the date conversion of line 66, and every other cell is the roster's cell
  as it stands after that conversion, which changes the first column whose trimmed label
  contains \<open>date\<close> and no other.
\<close>

theorem compare_files_output:
  assumes "rectangular attendance"
      and "compare_files to_datetime attendance bio1 bio2 = Inr out"
  shows "length (rows out) = length (rows attendance)
     \<and> columns out =
         (if ''Status'' \<in> set (map py_strip (columns attendance))
          then map py_strip (columns attendance)
          else map py_strip (columns attendance) @ [''Status''])
     \<and> next_col ''emp id'' (map py_strip (columns attendance)) ''EMP ID''
         \<in> set (map py_strip (columns attendance))
     \<and> (\<forall>i < length (rows attendance).
           length (rows out ! i) = length (columns out)
         \<and> (\<forall>j < length (columns out).
               if j = index_of ''Status'' (columns out)
               then (\<exists>s \<in> set labels. rows out ! i ! j = Text s)
               else if j = index_of (next_col ''emp id'' (map py_strip (columns attendance)) ''EMP ID'')
                             (map py_strip (columns attendance))
               then rows out ! i ! j = Text (clean_id (dated_cell to_datetime attendance i j))
               else rows out ! i ! j = dated_cell to_datetime attendance i j))"
proof -
  let ?cols = "map py_strip (columns attendance)"
  let ?km = "index_of (next_col ''emp id'' ?cols ''EMP ID'') ?cols"
  from compare_files_cells [OF assms] obtain sts where
    len: "length sts = length (rows attendance)"
    and lab: "set sts \<subseteq> {''Match'', ''No Punch'', ''Early'', ''Single In Punch'', ''Single Out Punch''}"
    and m: "next_col ''emp id'' ?cols ''EMP ID'' \<in> set ?cols"
    and no: "length (rows out) = length (rows attendance)"
    and co: "columns out = (if ''Status'' \<in> set ?cols then ?cols else ?cols @ [''Status''])"
    and cells: "\<forall>i < length (rows attendance).
           length (rows out ! i) = length (columns out)
         \<and> (\<forall>j < length (columns out).
               rows out ! i ! j =
                 (if j = index_of ''Status'' (columns out) then Text (sts ! i)
                  else if j = ?km then Text (clean_id (dated_cell to_datetime attendance i j))
                       else dated_cell to_datetime attendance i j))"
    by blast
  have per_row: "length (rows out ! i) = length (columns out)
         \<and> (\<forall>j < length (columns out).
               if j = index_of ''Status'' (columns out)
               then (\<exists>s \<in> set labels. rows out ! i ! j = Text s)
               else if j = ?km
               then rows out ! i ! j = Text (clean_id (dated_cell to_datetime attendance i j))
               else rows out ! i ! j = dated_cell to_datetime attendance i j)"
    if i: "i < length (rows attendance)" for i
  proof -
    have "sts ! i \<in> set sts" using i len by simp
    then have "sts ! i \<in> set labels" using lab by (auto simp: labels_def)
    then show ?thesis using cells i by auto
  qed
  show ?thesis
  proof (intro conjI)
    show "length (rows out) = length (rows attendance)" by (rule no)
    show "columns out = (if ''Status'' \<in> set ?cols then ?cols else ?cols @ [''Status''])"
      by (rule co)
    show "next_col ''emp id'' ?cols ''EMP ID'' \<in> set ?cols" by (rule m)
    show "\<forall>i < length (rows attendance).
           length (rows out ! i) = length (columns out)
         \<and> (\<forall>j < length (columns out).
               if j = index_of ''Status'' (columns out)
               then (\<exists>s \<in> set labels. rows out ! i ! j = Text s)
               else if j = ?km
               then rows out ! i ! j = Text (clean_id (dated_cell to_datetime attendance i j))
               else rows out ! i ! j = dated_cell to_datetime attendance i j)"
      using per_row by blast
  qed
qed

theorem compare_files_output_witness:
  "rectangular \<lparr>columns = [''EMP ID'', '' Shift '', ''Date'', ''Name '', ''Name''],
        rows = [[Text ''a-1'', Text ''HF'', Text ''2024-01-05'', Text ''x'', Text ''y'']]\<rparr>
   \<and> compare_files sample_to_datetime
        \<lparr>columns = [''EMP ID'', '' Shift '', ''Date'', ''Name '', ''Name''],
          rows = [[Text ''a-1'', Text ''HF'', Text ''2024-01-05'', Text ''x'', Text ''y'']]\<rparr>
        \<lparr>columns = [''Emp Code'', ''Punch 1''], rows = [[Text ''A1'', Text ''09:00'']]\<rparr>
        \<lparr>columns = [''Emp Code'', ''Punch 1''], rows = [[Text ''A1'', Text ''09:00'']]\<rparr>
      = Inr \<lparr>columns = [''EMP ID'', ''Shift'', ''Date'', ''Name'', ''Name'', ''Status''],
             rows = [[Text ''A1'', Text ''HF'', Text ''2024-01-05 00:00:00'', Text ''x'', Text ''y'',
                      Text ''Single In Punch'']]\<rparr>
   \<and> length (rows \<lparr>columns = [''EMP ID'', ''Shift'', ''Date'', ''Name'', ''Name'', ''Status''],
             rows = [[Text ''A1'', Text ''HF'', Text ''2024-01-05 00:00:00'', Text ''x'', Text ''y'',
                      Text ''Single In Punch'']]\<rparr>) = 1
   \<and> compare_files sample_to_datetime
        \<lparr>columns = [''Emp ID (updated)'', ''Shift''], rows = [[Text ''A1'', Text ''HF'']]\<rparr>
        \<lparr>columns = [''Emp Code'', ''Punch 1''], rows = [[Text ''A1'', Text ''09:00'']]\<rparr>
        \<lparr>columns = [''Emp Code'', ''Punch 1''], rows = [[Text ''A1'', Text ''09:00'']]\<rparr>
      = Inr \<lparr>columns = [''Emp ID (updated)'', ''Shift'', ''Status''],
             rows = [[Text ''NAN'', Text ''HF'', Text ''No Punch'']]\<rparr>"
proof -
  let ?M = "\<lparr>columns = [''EMP ID'', '' Shift '', ''Date'', ''Name '', ''Name''],
        rows = [[Text ''a-1'', Text ''HF'', Text ''2024-01-05'', Text ''x'', Text ''y'']]\<rparr>"
  let ?B = "\<lparr>columns = [''Emp Code'', ''Punch 1''], rows = [[Text ''A1'', Text ''09:00'']]\<rparr>"
  let ?O = "\<lparr>columns = [''EMP ID'', ''Shift'', ''Date'', ''Name'', ''Name'', ''Status''],
             rows = [[Text ''A1'', Text ''HF'', Text ''2024-01-05 00:00:00'', Text ''x'', Text ''y'',
                      Text ''Single In Punch'']]\<rparr>"
  let ?M2 = "\<lparr>columns = [''Emp ID (updated)'', ''Shift''], rows = [[Text ''A1'', Text ''HF'']]\<rparr>"
  let ?O2 = "\<lparr>columns = [''Emp ID (updated)'', ''Shift'', ''Status''],
             rows = [[Text ''NAN'', Text ''HF'', Text ''No Punch'']]\<rparr>"
  have h1: "rectangular ?M" by code_simp
  have h2: "compare_files sample_to_datetime ?M ?B ?B = Inr ?O" by code_simp
  have h3: "compare_files sample_to_datetime ?M2 ?B ?B = Inr ?O2" by code_simp
  have "length (rows ?O) = length (rows ?M)"
    using compare_files_output [OF h1 h2] by (rule conjunct1)
  then show ?thesis using h1 h2 h3 by simp
qed

text \<open>
  Claim C5, as stated, fails: the output differs from the input roster by more than the
  appended Status field. Line 80 writes the normalized keys back into the roster's
  employee-id column, so the id \<open>a-1\<close> leaves as \<open>A1\<close>.
\<close>

theorem compare_files_output_counterexample:
  "compare_files sample_to_datetime
        \<lparr>columns = [''EMP ID'', ''SHIFT''], rows = [[Text ''a-1'', Text ''HF'']]\<rparr>
        \<lparr>columns = [''Emp Code'', ''Punch 1''], rows = [[Text ''A1'', Text ''09:00'']]\<rparr>
        \<lparr>columns = [''Emp Code'', ''Punch 1''], rows = [[Text ''A1'', Text ''09:00'']]\<rparr>
      = Inr \<lparr>columns = [''EMP ID'', ''SHIFT'', ''Status''],
             rows = [[Text ''A1'', Text ''HF'', Text ''Single In Punch'']]\<rparr>
   \<and> \<not> appends_status_only
        \<lparr>columns = [''EMP ID'', ''SHIFT''], rows = [[Text ''a-1'', Text ''HF'']]\<rparr>
        \<lparr>columns = [''EMP ID'', ''SHIFT'', ''Status''],
             rows = [[Text ''A1'', Text ''HF'', Text ''Single In Punch'']]\<rparr>"
  by code_simp

lemma frame_ok_rectangular: "frame_ok (strip_columns attendance) \<Longrightarrow> rectangular attendance"
  unfolding frame_ok_def rectangular_def strip_columns_def by simp





text \<open>
  The date conversion on examples: a shift column whose label contains \<open>date\<close> is
  converted before the loop reads it, so that the row is classified by the text of the
  converted cell and not by the shift label of the roster.
\<close>

lemma date_conversion_example:
  "compare_files sample_to_datetime
        \<lparr>columns = [''Emp ID'', ''Shift (dated)''], rows = [[Text ''A1'', Text ''Full Night'']]\<rparr>
        \<lparr>columns = [''Emp Code'', ''Punch 1''], rows = [[Text ''A1'', Text ''-'']]\<rparr>
        \<lparr>columns = [''Emp Code'', ''Punch 1''], rows = [[Text ''A1'', Text ''06:00'']]\<rparr>
      = Inr \<lparr>columns = [''Emp ID'', ''Shift (dated)'', ''Status''],
             rows = [[Text ''A1'', NaN, Text ''No Punch'']]\<rparr>"
  by code_simp

section \<open>Properties of the punch-time parser\<close>

lemma ord_eq_iff: "(ord a = ord b) = (a = b)"
  unfolding ord_def by simp

lemma chr_ord:
  "(a = CHR ''2'') = (ord a = 50)"
  "(a = CHR ''6'') = (ord a = 54)"
  "(a = CHR '':'') = (ord a = 58)"
proof -
  have "ord CHR ''2'' = 50" "ord CHR ''6'' = 54" "ord CHR '':'' = 58"
    by (simp_all add: ord_def)
  then show "(a = CHR ''2'') = (ord a = 50)" "(a = CHR ''6'') = (ord a = 54)"
    "(a = CHR '':'') = (ord a = 58)"
    using ord_eq_iff by metis+
qed

lemma ord_digits:
  "ord CHR ''0'' = 48" "ord CHR ''1'' = 49" "ord CHR ''2'' = 50" "ord CHR ''3'' = 51"
  "ord CHR ''4'' = 52" "ord CHR ''5'' = 53"
  by (simp_all add: ord_def)

lemma mem_01: "(a \<in> set ''01'') = (48 \<le> ord a \<and> ord a \<le> 49)"
proof -
  have "(a \<in> set ''01'') = (ord a = ord CHR ''0'' \<or> ord a = ord CHR ''1'')"
    by (simp add: ord_eq_iff)
  also have "\<dots> = (48 \<le> ord a \<and> ord a \<le> 49)"
    unfolding ord_digits by arith
  finally show ?thesis .
qed

lemma mem_0123: "(a \<in> set ''0123'') = (48 \<le> ord a \<and> ord a \<le> 51)"
proof -
  have "(a \<in> set ''0123'')
      = (ord a = ord CHR ''0'' \<or> ord a = ord CHR ''1'' \<or> ord a = ord CHR ''2'' \<or> ord a = ord CHR ''3'')"
    by (simp add: ord_eq_iff)
  also have "\<dots> = (48 \<le> ord a \<and> ord a \<le> 51)"
    unfolding ord_digits by arith
  finally show ?thesis .
qed

lemma mem_012345: "(a \<in> set ''012345'') = (48 \<le> ord a \<and> ord a \<le> 53)"
proof -
  have "(a \<in> set ''012345'')
      = (ord a = ord CHR ''0'' \<or> ord a = ord CHR ''1'' \<or> ord a = ord CHR ''2'' \<or> ord a = ord CHR ''3''
         \<or> ord a = ord CHR ''4'' \<or> ord a = ord CHR ''5'')"
    by (simp add: ord_eq_iff)
  also have "\<dots> = (48 \<le> ord a \<and> ord a \<le> 53)"
    unfolding ord_digits by arith
  finally show ?thesis .
qed

lemma directive_matches_Nil:
  "d = DH \<or> d = DM \<or> d = DS \<Longrightarrow> directive_matches d [] = []"
  by (auto simp: two_digits_def one_digit_def)

lemma directive_matches_one:
  "d = DH \<or> d = DM \<or> d = DS \<Longrightarrow>
   directive_matches d [a] = (if is_digit a then [(ord a - 48, [])] else [])"
  by (auto simp: two_digits_def one_digit_def)

lemma directive_matches_two:
  assumes "d = DH \<or> d = DM \<or> d = DS"
  shows "directive_matches d (a # b # r) =
     (if is_digit a \<and> is_digit b \<and> num2 a b \<le> two_digit_max d then [(num2 a b, r)] else [])
     @ (if is_digit a then [(ord a - 48, b # r)] else [])"
proof -
  have h: "directive_matches DH (a # b # r) =
     (if is_digit a \<and> is_digit b \<and> num2 a b \<le> 23 then [(num2 a b, r)] else [])
     @ (if is_digit a then [(ord a - 48, b # r)] else [])"
    unfolding directive_matches.simps two_digits_def one_digit_def mem_01 mem_0123 chr_ord
    by (auto simp: is_digit_def num2_def)
  have m: "directive_matches DM (a # b # r) =
     (if is_digit a \<and> is_digit b \<and> num2 a b \<le> 59 then [(num2 a b, r)] else [])
     @ (if is_digit a then [(ord a - 48, b # r)] else [])"
    unfolding directive_matches.simps two_digits_def one_digit_def mem_012345
    by (auto simp: is_digit_def num2_def)
  have s: "directive_matches DS (a # b # r) =
     (if is_digit a \<and> is_digit b \<and> num2 a b \<le> 61 then [(num2 a b, r)] else [])
     @ (if is_digit a then [(ord a - 48, b # r)] else [])"
    unfolding directive_matches.simps two_digits_def one_digit_def mem_01 mem_012345 chr_ord
    by (auto simp: is_digit_def num2_def)
  from assms h m s show ?thesis by auto
qed

lemma digit_not_colon: "is_digit a \<Longrightarrow> a \<noteq> CHR '':''"
  unfolding chr_ord is_digit_def by simp

lemma not_digit_colon: "\<not> is_digit CHR '':''"
  using digit_not_colon by blast

lemma lit_matches:
  "format_matches (Lit c # ds) s =
     (case s of [] \<Rightarrow> []
      | a # r \<Rightarrow> if a = c then map (\<lambda>(vs, r'). ((Lit c, 0) # vs, r')) (format_matches ds r) else [])"
  by (cases s) simp_all

lemma fm_field_colon:
  assumes "d = DH \<or> d = DM"
  shows "format_matches (d # Lit CHR '':'' # ds) s =
   (case field_value (two_digit_max d) (takeWhile (\<lambda>c. c \<noteq> CHR '':'') s) of
      None \<Rightarrow> []
    | Some v \<Rightarrow>
        (case dropWhile (\<lambda>c. c \<noteq> CHR '':'') s of
           [] \<Rightarrow> []
         | c # r \<Rightarrow> map (\<lambda>(vs, r'). ((d, v) # (Lit CHR '':'', 0) # vs, r')) (format_matches ds r)))"
proof -
  from assms have d: "d = DH \<or> d = DM \<or> d = DS" by blast
  show ?thesis
  proof (cases s)
    case Nil
    then show ?thesis
      by (simp add: directive_matches_Nil [OF d] field_value_def)
  next
    case (Cons a s1)
    note s = Cons
    show ?thesis
    proof (cases s1)
      case Nil
      show ?thesis
        unfolding s Nil
        apply (subst format_matches.simps(2))
        apply (simp add: directive_matches_one [OF d] lit_matches field_value_def digit_not_colon
                    del: format_matches.simps)
        done
    next
      case (Cons b r)
      show ?thesis
        unfolding s Cons
        apply (subst format_matches.simps(2))
        apply (cases r)
         apply (auto simp add: directive_matches_two [OF d] lit_matches field_value_def
                    digit_not_colon not_digit_colon
                    simp del: format_matches.simps)
        done
    qed
  qed
qed

lemma last_field:
  assumes "d = DM \<or> d = DS"
  shows "(case directive_matches d s of
            [] \<Rightarrow> None
          | (v, r) # _ \<Rightarrow> if r = [] \<and> v < 60 then Some v else None) = field_value 59 s"
proof -
  from assms have d: "d = DH \<or> d = DM \<or> d = DS" by blast
  from assms have mx: "two_digit_max d = 59 \<or> two_digit_max d = 61" by auto
  have one: "is_digit a \<Longrightarrow> ord a - 48 < 60" for a
    unfolding is_digit_def by arith
  show ?thesis
  proof (cases s)
    case Nil
    then show ?thesis by (simp add: directive_matches_Nil [OF d] field_value_def)
  next
    case (Cons a s1)
    note s = Cons
    show ?thesis
    proof (cases s1)
      case Nil
      then show ?thesis
        using s one by (simp add: directive_matches_one [OF d] field_value_def)
    next
      case (Cons b r)
      then show ?thesis
        using s mx by (cases r) (auto simp: directive_matches_two [OF d] field_value_def)
    qed
  qed
qed

lemma split_colon_eq:
  "split_colon s =
     takeWhile (\<lambda>c. c \<noteq> CHR '':'') s
     # (case dropWhile (\<lambda>c. c \<noteq> CHR '':'') s of [] \<Rightarrow> [] | c # r \<Rightarrow> split_colon r)"
  by (induction s) (auto split: list.splits)

lemma field_value_digits:
  "field_value mx f = Some v \<Longrightarrow> list_all is_digit f \<and> f \<noteq> []"
  unfolding field_value_def by (auto split: list.splits if_splits)

lemma field_value_bound:
  "field_value mx f = Some v \<Longrightarrow> v \<le> max mx 9"
  unfolding field_value_def by (auto split: list.splits if_splits simp: is_digit_def)

lemma split_colon_ne: "split_colon s \<noteq> []"
  by (induction s) (auto split: list.splits)

lemma no_colon_split:
  assumes "list_all is_digit f"
  shows "split_colon f = [f]"
proof -
  from assms have "\<forall>c \<in> set f. c \<noteq> CHR '':''"
    using digit_not_colon by (auto simp: list_all_iff)
  then have tw: "takeWhile (\<lambda>c. c \<noteq> CHR '':'') f = f"
    and dw: "dropWhile (\<lambda>c. c \<noteq> CHR '':'') f = []"
    by simp_all
  have "split_colon f = takeWhile (\<lambda>c. c \<noteq> CHR '':'') f
     # (case dropWhile (\<lambda>c. c \<noteq> CHR '':'') f of [] \<Rightarrow> [] | c # r \<Rightarrow> split_colon r)"
    by (rule split_colon_eq)
  also have "\<dots> = [f]" unfolding tw dw by simp
  finally show ?thesis .
qed

lemma split_colon_single:
  assumes "split_colon s = [x]"
  shows "x = s"
proof -
  have e: "split_colon s = takeWhile (\<lambda>c. c \<noteq> CHR '':'') s
     # (case dropWhile (\<lambda>c. c \<noteq> CHR '':'') s of [] \<Rightarrow> [] | c # r \<Rightarrow> split_colon r)"
    by (rule split_colon_eq)
  have dw: "dropWhile (\<lambda>c. c \<noteq> CHR '':'') s = []"
  proof (cases "dropWhile (\<lambda>c. c \<noteq> CHR '':'') s")
    case Nil
    then show ?thesis .
  next
    case (Cons c r)
    with e assms have "split_colon r = []" by simp
    then show ?thesis using split_colon_ne by blast
  qed
  have "takeWhile (\<lambda>c. c \<noteq> CHR '':'') s @ dropWhile (\<lambda>c. c \<noteq> CHR '':'') s = s"
    by (rule takeWhile_dropWhile_id)
  then have "takeWhile (\<lambda>c. c \<noteq> CHR '':'') s = s" unfolding dw by simp
  with e assms show ?thesis unfolding dw by simp
qed

lemma last_field_split:
  "(case split_colon s of [x] \<Rightarrow> field_value mx x | _ \<Rightarrow> None) = field_value mx s"
proof (cases "field_value mx s")
  case None
  then show ?thesis
    using split_colon_single [of s] by (auto split: list.splits)
next
  case (Some v)
  then show ?thesis
    using no_colon_split [of s] field_value_digits [OF Some] by simp
qed

lemma fm_single:
  "format_matches [d] s = map (\<lambda>(v, r). ([(d, v)], r)) (directive_matches d s)"
  by (simp add: split_def)

lemma strptime_HMS:
  "strptime s fmt_HMS = (case strict_hms s of Some t \<Rightarrow> Inr t | None \<Rightarrow> Inl ValueError)"
proof -
  let ?tw = "takeWhile (\<lambda>c. c \<noteq> CHR '':'')"
  let ?dw = "dropWhile (\<lambda>c. c \<noteq> CHR '':'')"
  have sp: "split_colon x = ?tw x # (case ?dw x of [] \<Rightarrow> [] | c # r \<Rightarrow> split_colon r)" for x
    by (rule split_colon_eq)
  have fm1: "format_matches fmt_HMS s =
     (case field_value 23 (?tw s) of None \<Rightarrow> []
      | Some v \<Rightarrow> (case ?dw s of [] \<Rightarrow> []
         | c # r \<Rightarrow> map (\<lambda>(vs, r'). ((DH, v) # (Lit CHR '':'', 0) # vs, r'))
                      (format_matches [DM, Lit CHR '':'', DS] r)))"
    unfolding fmt_HMS_def using fm_field_colon [of DH "[DM, Lit CHR '':'', DS]" s] by simp
  have fm2: "format_matches [DM, Lit CHR '':'', DS] r =
     (case field_value 59 (?tw r) of None \<Rightarrow> []
      | Some v \<Rightarrow> (case ?dw r of [] \<Rightarrow> []
         | c # r2 \<Rightarrow> map (\<lambda>(vs, r'). ((DM, v) # (Lit CHR '':'', 0) # vs, r'))
                      (format_matches [DS] r2)))" for r
    using fm_field_colon [of DM "[DS]" r] by simp
  show ?thesis
  proof (cases "field_value 23 (?tw s)")
    case None
    then show ?thesis
      unfolding strptime_def fm1 strict_hms_def
      by (subst sp) (auto split: list.splits)
  next
    case (Some a)
    note a = Some
    show ?thesis
    proof (cases "?dw s")
      case Nil
      have sps: "split_colon s = [?tw s]"
        using sp [of s] unfolding Nil by simp
      show ?thesis
        unfolding strptime_def fm1 strict_hms_def sps Nil a by (simp add: a)
    next
      case (Cons c r)
      note r = Cons
      have sps: "split_colon s = ?tw s # split_colon r"
        using sp [of s] unfolding r by simp
      show ?thesis
      proof (cases "field_value 59 (?tw r)")
        case None
        obtain rest where spr: "split_colon r = ?tw r # rest"
          using sp [of r] by blast
        have f3: "format_matches [DM, Lit CHR '':'', DS] r = []"
          unfolding fm2 [of r] None option.case by (rule refl)
        have "format_matches fmt_HMS s = []"
          unfolding fm1 a r option.case list.case f3 by simp
        then have "strptime s fmt_HMS = Inl ValueError"
          unfolding strptime_def by simp
        moreover have "strict_hms s = None"
          unfolding strict_hms_def sps spr by (simp add: a None split: list.splits)
        ultimately show ?thesis by simp
      next
        case (Some b)
        note b = Some
        show ?thesis
        proof (cases "?dw r")
          case Nil
          note dw2 = Nil
          have spr: "split_colon r = [?tw r]"
            using sp [of r] unfolding dw2 by simp
          have f3: "format_matches [DM, Lit CHR '':'', DS] r = []"
            unfolding fm2 [of r] b dw2 option.case list.case by (rule refl)
          have "format_matches fmt_HMS s = []"
            unfolding fm1 a r option.case list.case f3 by simp
          then have "strptime s fmt_HMS = Inl ValueError"
            unfolding strptime_def by simp
          moreover have "strict_hms s = None"
            unfolding strict_hms_def sps spr by simp
          ultimately show ?thesis by simp
        next
          case (Cons c' r2)
          note r2 = Cons
          have spr: "split_colon r = ?tw r # split_colon r2"
            using sp [of r] unfolding r2 by simp
          have ab: "a < 24" "b < 60"
            using field_value_bound [OF a] field_value_bound [OF b] by simp_all
          have f3: "format_matches [DM, Lit CHR '':'', DS] r =
              map (\<lambda>(vs, r'). ((DM, b) # (Lit CHR '':'', 0) # vs, r'))
                (map (\<lambda>(v, r). ([(DS, v)], r)) (directive_matches DS r2))"
            unfolding fm2 [of r] b r2 option.case list.case fm_single by (rule refl)
          have fs: "format_matches fmt_HMS s =
              map (\<lambda>(vs, r'). ((DH, a) # (Lit CHR '':'', 0) # vs, r'))
                (map (\<lambda>(vs, r'). ((DM, b) # (Lit CHR '':'', 0) # vs, r'))
                  (map (\<lambda>(v, r). ([(DS, v)], r)) (directive_matches DS r2)))"
            unfolding fm1 a r option.case list.case f3 by (rule refl)
          have lhs: "strptime s fmt_HMS =
             (case directive_matches DS r2 of [] \<Rightarrow> Inl ValueError
              | (v, r') # _ \<Rightarrow> if r' = [] \<and> v < 60 then Inr (a, b, v) else Inl ValueError)"
            unfolding strptime_def fs
            using ab by (cases "directive_matches DS r2") auto
          have rhs: "strict_hms s =
             (case field_value 59 r2 of Some v \<Rightarrow> Some (a, b, v) | None \<Rightarrow> None)"
            unfolding strict_hms_def sps spr a b
            using last_field_split [of 59 r2, symmetric] split_colon_ne [of r2]
            by (auto simp: a b split: list.splits option.splits)
          show ?thesis
            unfolding lhs rhs last_field [of DS r2, symmetric, OF disjI2 [OF refl]]
            by (auto split: list.splits)
        qed
      qed
    qed
  qed
qed

lemma strptime_HM:
  "strptime s fmt_HM = (case strict_hm s of Some t \<Rightarrow> Inr t | None \<Rightarrow> Inl ValueError)"
proof -
  let ?tw = "takeWhile (\<lambda>c. c \<noteq> CHR '':'')"
  let ?dw = "dropWhile (\<lambda>c. c \<noteq> CHR '':'')"
  have sp: "split_colon x = ?tw x # (case ?dw x of [] \<Rightarrow> [] | c # r \<Rightarrow> split_colon r)" for x
    by (rule split_colon_eq)
  have fm1: "format_matches fmt_HM s =
     (case field_value 23 (?tw s) of None \<Rightarrow> []
      | Some v \<Rightarrow> (case ?dw s of [] \<Rightarrow> []
         | c # r \<Rightarrow> map (\<lambda>(vs, r'). ((DH, v) # (Lit CHR '':'', 0) # vs, r'))
                      (format_matches [DM] r)))"
    unfolding fmt_HM_def using fm_field_colon [of DH "[DM]" s] by simp
  show ?thesis
  proof (cases "field_value 23 (?tw s)")
    case None
    obtain rest where sps: "split_colon s = ?tw s # rest"
      using sp [of s] by blast
    have "format_matches fmt_HM s = []"
      unfolding fm1 None option.case by (rule refl)
    then have "strptime s fmt_HM = Inl ValueError"
      unfolding strptime_def by simp
    moreover have "strict_hm s = None"
      unfolding strict_hm_def sps by (simp add: None split: list.splits)
    ultimately show ?thesis by simp
  next
    case (Some a)
    note a = Some
    show ?thesis
    proof (cases "?dw s")
      case Nil
      note dw = Nil
      have sps: "split_colon s = [?tw s]"
        using sp [of s] unfolding dw by simp
      have "format_matches fmt_HM s = []"
        unfolding fm1 a dw option.case list.case by (rule refl)
      then have "strptime s fmt_HM = Inl ValueError"
        unfolding strptime_def by simp
      moreover have "strict_hm s = None"
        unfolding strict_hm_def sps by simp
      ultimately show ?thesis by simp
    next
      case (Cons c r)
      note r = Cons
      have sps: "split_colon s = ?tw s # split_colon r"
        using sp [of s] unfolding r by simp
      have a24: "a < 24"
        using field_value_bound [OF a] by simp
      have fs: "format_matches fmt_HM s =
          map (\<lambda>(vs, r'). ((DH, a) # (Lit CHR '':'', 0) # vs, r'))
            (map (\<lambda>(v, r). ([(DM, v)], r)) (directive_matches DM r))"
        unfolding fm1 a r option.case list.case fm_single by (rule refl)
      have lhs: "strptime s fmt_HM =
         (case directive_matches DM r of [] \<Rightarrow> Inl ValueError
          | (v, r') # _ \<Rightarrow> if r' = [] \<and> v < 60 then Inr (a, v, 0) else Inl ValueError)"
        unfolding strptime_def fs
        using a24 by (cases "directive_matches DM r") auto
      have rhs: "strict_hm s =
         (case field_value 59 r of Some v \<Rightarrow> Some (a, v, 0) | None \<Rightarrow> None)"
        unfolding strict_hm_def sps
        using last_field_split [of 59 r, symmetric] split_colon_ne [of r]
        by (auto simp: a split: list.splits option.splits)
      show ?thesis
        unfolding lhs rhs last_field [of DM r, symmetric, OF disjI1 [OF refl]]
        by (auto split: list.splits)
    qed
  qed
qed

lemma time_char_not_space: "is_digit c \<or> c = CHR '':'' \<Longrightarrow> \<not> py_isspace c"
  unfolding chr_ord is_digit_def py_isspace_def by arith

lemma strip_sub_non_time: "py_strip (sub_non_time s) = sub_non_time s"
  by (rule strip_no_space) (use time_char_not_space in \<open>auto simp: sub_non_time_def list_all_iff\<close>)

lemma to_time_refines: "to_time v = spec_parse v"
  unfolding to_time_def spec_parse_def strip_sub_non_time
  by (simp add: strptime_HMS strptime_HM split: option.splits)

lemma blank_sub_non_time: "list_all py_isspace s \<Longrightarrow> sub_non_time s = []"
  unfolding sub_non_time_def using time_char_not_space
  by (auto simp: list_all_iff filter_empty_conv)

text \<open>
  Claim C8. For every input \<open>to_time\<close> returns what the specification's parser
  returns: no value for a missing input, and otherwise the stringified value with
  everything but ASCII digits and colons removed, parsed strictly as hour:minute:second
  and, failing that, as hour:minute. It has no error result: every exception of
  \<open>strptime\<close> is caught. The four examples of the specification hold, and a blank text
  gives no value.
\<close>

theorem to_time_spec:
  "to_time v = spec_parse v
   \<and> to_time (Text ''23:04:00 - O'') = Some (23, 4, 0)
   \<and> to_time (Text ''07:16'') = Some (7, 16, 0)
   \<and> to_time (Text []) = None
   \<and> to_time (Text ''garbage'') = None
   \<and> to_time PyNone = None
   \<and> to_time NaN = None
   \<and> (list_all py_isspace s \<longrightarrow> to_time (Text s) = None)"
proof -
  have "to_time (Text ''23:04:00 - O'') = Some (23, 4, 0)" by code_simp
  moreover have "to_time (Text ''07:16'') = Some (7, 16, 0)" by code_simp
  moreover have "to_time (Text []) = None" by code_simp
  moreover have "to_time (Text ''garbage'') = None" by code_simp
  moreover have "to_time PyNone = None" "to_time NaN = None"
    by (simp_all add: to_time_def isna_def)
  moreover have "to_time (Text s) = None" if "list_all py_isspace s"
    unfolding to_time_refines spec_parse_def
    by (simp add: isna_def py_str_def blank_sub_non_time [OF that] strict_hms_def strict_hm_def)
  ultimately show ?thesis using to_time_refines by blast
qed

theorem to_time_spec_witness:
  "list_all py_isspace ''  ''
   \<and> to_time (Text ''  '') = None
   \<and> to_time (Text ''out 9:5:7'') = spec_parse (Text ''out 9:5:7'')
   \<and> spec_parse (Text ''out 9:5:7'') = Some (9, 5, 7)"
proof -
  have h: "list_all py_isspace ''  ''" by code_simp
  have p: "spec_parse (Text ''out 9:5:7'') = Some (9, 5, 7)" by code_simp
  have "to_time (Text ''out 9:5:7'') = spec_parse (Text ''out 9:5:7'')"
    using to_time_spec [of "Text ''out 9:5:7''"] by (rule conjunct1)
  moreover have "list_all py_isspace ''  '' \<longrightarrow> to_time (Text ''  '') = None"
    using to_time_spec [of "Text []" "''  ''"] by blast
  ultimately show ?thesis using h p by blast
qed

section \<open>The rows of the output table\<close>

lemma cleaned_rows:
  assumes rect: "rectangular attendance"
      and md0: "coerce_dates dt (strip_columns attendance) = Inr md0"
      and m: "next_col ''emp id'' (map py_strip (columns attendance)) ''EMP ID''
                \<in> set (map py_strip (columns attendance))"
      and i: "i < length (rows attendance)"
  shows "cell_of (map py_strip (columns attendance))
           (rows (map_column (\<lambda>v. Text (clean_id (Text (py_str v))))
                    (next_col ''emp id'' (map py_strip (columns attendance)) ''EMP ID'') md0) ! i)
           (next_col ''emp id'' (map py_strip (columns attendance)) ''EMP ID'')
         = Some (Text (clean_id (dated_cell dt attendance i
                   (index_of (next_col ''emp id'' (map py_strip (columns attendance)) ''EMP ID'')
                      (map py_strip (columns attendance))))))"
proof -
  let ?cols = "map py_strip (columns attendance)"
  let ?m = "next_col ''emp id'' ?cols ''EMP ID''"
  let ?km = "index_of ?m ?cols"
  let ?g = "\<lambda>v. Text (clean_id (Text (py_str v)))"
  let ?md = "map_column ?g ?m md0"
  note cd = coerce_dates_Inr [OF rect md0]
  have km: "?km < length ?cols" by (rule index_of_less [OF m])
  have km': "?km < length (columns attendance)" using km by simp
  have lr0: "length (rows md0 ! i) = length ?cols" using cd(3) [OF i] by simp
  have r1: "rows ?md ! i = (rows md0 ! i)[?km := ?g (rows md0 ! i ! ?km)]"
    using rows_map_column [of i md0 ?g ?m] i unfolding cd(1) cd(2) by simp
  have l1: "length (rows ?md ! i) = length ?cols" unfolding r1 using lr0 by simp
  have "rows ?md ! i ! ?km = Text (clean_id (dated_cell dt attendance i ?km))"
    unfolding r1 using km lr0 cd(4) [OF i km'] by (simp add: clean_id_str)
  then show ?thesis using cell_of_nth [OF l1 m] by simp
qed

text \<open>
  The Status that \<open>compare_files\<close> writes into row \<open>i\<close> of the roster is \<open>status_of\<close>
  for the row's normalized key and lowercased shift label, on the two biometric frames as
  they stand after line 82: the statements about \<open>status_of\<close> are statements about the
  rows of the output table.
\<close>

lemma compare_files_row:
  assumes rect: "rectangular attendance"
      and res: "compare_files dt attendance bio1_raw bio2_raw = Inr out"
      and i: "i < length (rows attendance)"
  shows "\<exists>md0 c1 c2 b1 b2 st.
       coerce_dates dt (strip_columns attendance) = Inr md0
     \<and> find_emp_col (columns (strip_columns (dedupe_columns_inplace bio1_raw))) = Inr c1
     \<and> find_emp_col (columns (strip_columns (dedupe_columns_inplace bio2_raw))) = Inr c2
     \<and> clean_column c1 (strip_columns (dedupe_columns_inplace bio1_raw)) = Inr b1
     \<and> clean_column c2 (strip_columns (dedupe_columns_inplace bio2_raw)) = Inr b2
     \<and> status_of b1 b2 c1 c2
          (clean_id (dated_cell dt attendance i
             (index_of (next_col ''emp id'' (map py_strip (columns attendance)) ''EMP ID'')
                (map py_strip (columns attendance)))))
          (row_shift (map py_strip (columns attendance))
             (next_col ''shift'' (map py_strip (columns attendance)) ''SHIFT'')
             (rows (map_column (\<lambda>v. Text (clean_id (Text (py_str v))))
                      (next_col ''emp id'' (map py_strip (columns attendance)) ''EMP ID'') md0) ! i))
          = Inr st
     \<and> rows out ! i ! index_of ''Status'' (columns out) = Text st"
proof -
  let ?cols = "map py_strip (columns attendance)"
  let ?m = "next_col ''emp id'' ?cols ''EMP ID''"
  let ?s = "next_col ''shift'' ?cols ''SHIFT''"
  let ?km = "index_of ?m ?cols"
  let ?g = "\<lambda>v. Text (clean_id (Text (py_str v)))"
  from compare_files_parts [OF rect res] obtain md0 c1 c2 b1 b2 sts where
    md0: "coerce_dates dt (strip_columns attendance) = Inr md0"
    and m: "?m \<in> set ?cols"
    and f1: "find_emp_col (columns (strip_columns (dedupe_columns_inplace bio1_raw))) = Inr c1"
    and f2: "find_emp_col (columns (strip_columns (dedupe_columns_inplace bio2_raw))) = Inr c2"
    and k1: "clean_column c1 (strip_columns (dedupe_columns_inplace bio1_raw)) = Inr b1"
    and k2: "clean_column c2 (strip_columns (dedupe_columns_inplace bio2_raw)) = Inr b2"
    and l: "statuses_loop (replace_blank b1) (replace_blank b2) c1 c2
          (col_values (replace_blank b1) c1) ?cols ?m ?s (rows (map_column ?g ?m md0)) = Inr sts"
    and len: "length sts = length (rows attendance)"
    and out: "out = set_column ''Status'' (map Text sts) (map_column ?g ?m md0)"
    by blast
  let ?md = "map_column ?g ?m md0"
  note cd = coerce_dates_Inr [OF rect md0]
  have i': "i < length (rows ?md)" using i by (simp add: length_rows_map_column cd(2))
  from statuses_loop_nth [OF l i'] obtain emp where
    e: "cell_of ?cols (rows ?md ! i) ?m = Some emp"
    and st: "row_status (replace_blank b1) (replace_blank b2) c1 c2
               (col_values (replace_blank b1) c1) emp (row_shift ?cols ?s (rows ?md ! i))
             = Inr (sts ! i)"
    by blast
  from e cleaned_rows [OF rect md0 m i]
  have emp: "emp = Text (clean_id (dated_cell dt attendance i ?km))" by simp
  have a: "status_of b1 b2 c1 c2 (clean_id (dated_cell dt attendance i ?km))
             (row_shift ?cols ?s (rows ?md ! i)) = Inr (sts ! i)"
    using st unfolding status_of_def emp .
  note oc = output_cells [OF rect md0 m len out]
  have s: "''Status'' \<in> set (columns out)" using oc by simp
  have ks: "index_of ''Status'' (columns out) < length (columns out)"
    by (rule index_of_less [OF s])
  have b: "rows out ! i ! index_of ''Status'' (columns out) = Text (sts ! i)"
    using oc i ks by simp
  from md0 f1 f2 k1 k2 a b show ?thesis by blast
qed

lemma scan_cols_mem: "scan_cols n cols = Some c \<Longrightarrow> c \<in> set cols"
  by (induction cols) (auto split: if_splits)

lemma scan_names_mem: "scan_names ns cols = Some c \<Longrightarrow> c \<in> set cols"
  by (induction ns) (auto split: option.splits dest: scan_cols_mem)

lemma find_emp_col_Inr:
  assumes "cols \<noteq> []"
  shows "\<exists>c. find_emp_col cols = Inr c \<and> c \<in> set cols"
proof (cases "scan_names possible cols")
  case None
  then show ?thesis using assms unfolding find_emp_col_def by (cases cols) simp_all
next
  case (Some c)
  then show ?thesis using scan_names_mem [OF Some] unfolding find_emp_col_def by simp
qed

lemma dedupe_columns_ne:
  "columns f \<noteq> [] \<Longrightarrow> columns (strip_columns (dedupe_columns_inplace f)) \<noteq> []"
  unfolding strip_columns_def dedupe_columns_inplace_def select_mask_def Let_def
  by (cases "columns f") simp_all

lemma row_status_total:
  assumes "distinct (columns bio1)" and "c1 \<in> set (columns bio1)"
      and "distinct (columns bio2)" and "c2 \<in> set (columns bio2)"
  shows "\<exists>st. row_status bio1 bio2 c1 c2 ids emp shift = Inr st"
proof -
  obtain p1 where p1: "get_punch_times bio1 emp c1 = Inr p1"
    using get_punch_times_total [OF assms(1,2)] by blast
  obtain p2 where p2: "get_punch_times bio2 emp c2 = Inr p2"
    using get_punch_times_total [OF assms(3,4)] by blast
  show ?thesis unfolding row_status_def p1 p2 by simp
qed

lemma statuses_loop_total:
  assumes "distinct (columns bio1)" and "c1 \<in> set (columns bio1)"
      and "distinct (columns bio2)" and "c2 \<in> set (columns bio2)"
      and "\<not> repeated s cols"
  shows "(\<forall>r \<in> set rws. cell_of cols r m \<noteq> None)
   \<Longrightarrow> \<exists>sts. statuses_loop bio1 bio2 c1 c2 ids cols m s rws = Inr sts"
proof (induction rws)
  case Nil
  then show ?case by simp
next
  case (Cons row rest)
  then obtain emp where e: "cell_of cols row m = Some emp" by auto
  obtain st where st: "row_status bio1 bio2 c1 c2 ids emp (row_shift cols s row) = Inr st"
    using row_status_total [OF assms(1-4)] by blast
  from Cons obtain sts where "statuses_loop bio1 bio2 c1 c2 ids cols m s rest = Inr sts"
    by auto
  then show ?case using e st assms(5) by simp
qed

lemma clean_column_Inr:
  "distinct (columns f) \<Longrightarrow> c \<in> set (columns f)
   \<Longrightarrow> clean_column c f = Inr (map_column (\<lambda>v. Text (clean_id (Text (py_str v)))) c f)"
  unfolding clean_column_def by (simp add: distinct_not_repeated)

text \<open>
  \<open>compare_files\<close> returns a table whenever the trimmed labels of each frame are
  distinct, the roster has a column whose label contains \<open>emp id\<close> and each biometric
  frame has at least one column; what is left are the KeyError of line 80, the IndexError
  of \<open>find_emp_col\<close> and the labels that become equal by trimming.
\<close>

lemma compare_files_returns:
  assumes ok: "frame_ok (strip_columns attendance)"
      and m: "next_col ''emp id'' (map py_strip (columns attendance)) ''EMP ID''
                \<in> set (map py_strip (columns attendance))"
      and n1: "columns bio1_raw \<noteq> []" and n2: "columns bio2_raw \<noteq> []"
      and d1: "distinct (columns (strip_columns (dedupe_columns_inplace bio1_raw)))"
      and d2: "distinct (columns (strip_columns (dedupe_columns_inplace bio2_raw)))"
  shows "\<exists>out. compare_files dt attendance bio1_raw bio2_raw = Inr out"
proof -
  let ?f = "strip_columns attendance"
  let ?cols = "map py_strip (columns attendance)"
  let ?m = "next_col ''emp id'' ?cols ''EMP ID''"
  let ?s = "next_col ''shift'' ?cols ''SHIFT''"
  let ?g = "\<lambda>v. Text (clean_id (Text (py_str v)))"
  let ?B1 = "strip_columns (dedupe_columns_inplace bio1_raw)"
  let ?B2 = "strip_columns (dedupe_columns_inplace bio2_raw)"
  have cf: "columns ?f = ?cols" by (simp add: strip_columns_def)
  have d: "distinct ?cols" using ok unfolding frame_ok_def cf by simp
  have rect: "rectangular attendance" by (rule frame_ok_rectangular [OF ok])
  obtain md0 where md0: "coerce_dates dt ?f = Inr md0"
    unfolding coerce_dates_def cf
    by (cases "filter (\<lambda>c. sublist ''date'' (py_lower c)) ?cols")
       (simp_all add: distinct_not_repeated [OF d])
  note cd = coerce_dates_Inr [OF rect md0]
  have c0: "columns md0 = ?cols" by (rule cd(1))
  let ?md = "map_column ?g ?m md0"
  have km: "clean_column ?m md0 = Inr ?md"
    using clean_column_Inr [of md0 ?m] d m unfolding c0 by simp
  from find_emp_col_Inr [OF dedupe_columns_ne [OF n1]] obtain c1 where
    f1: "find_emp_col (columns ?B1) = Inr c1" and c1: "c1 \<in> set (columns ?B1)" by blast
  from find_emp_col_Inr [OF dedupe_columns_ne [OF n2]] obtain c2 where
    f2: "find_emp_col (columns ?B2) = Inr c2" and c2: "c2 \<in> set (columns ?B2)" by blast
  let ?b1 = "map_column ?g c1 ?B1"
  let ?b2 = "map_column ?g c2 ?B2"
  have k1: "clean_column c1 ?B1 = Inr ?b1" by (rule clean_column_Inr [OF d1 c1])
  have k2: "clean_column c2 ?B2 = Inr ?b2" by (rule clean_column_Inr [OF d2 c2])
  have e1: "distinct (columns (replace_blank ?b1))" "c1 \<in> set (columns (replace_blank ?b1))"
    using d1 c1 by (simp_all add: columns_replace columns_map_column)
  have e2: "distinct (columns (replace_blank ?b2))" "c2 \<in> set (columns (replace_blank ?b2))"
    using d2 c2 by (simp_all add: columns_replace columns_map_column)
  have cells: "\<forall>r \<in> set (rows ?md). cell_of ?cols r ?m \<noteq> None"
  proof
    fix r assume "r \<in> set (rows ?md)"
    then obtain i where i: "i < length (rows ?md)" and r: "r = rows ?md ! i"
      by (auto simp: in_set_conv_nth)
    from i have i': "i < length (rows attendance)"
      by (simp add: length_rows_map_column cd(2))
    show "cell_of ?cols r ?m \<noteq> None"
      unfolding r using cleaned_rows [OF rect md0 m i'] by simp
  qed
  obtain sts where l: "statuses_loop (replace_blank ?b1) (replace_blank ?b2) c1 c2
        (col_values (replace_blank ?b1) c1) ?cols ?m ?s (rows ?md) = Inr sts"
    using statuses_loop_total [OF e1 e2 distinct_not_repeated [OF d], of "rows ?md" ?m] cells
    by blast
  have ns: "\<not> repeated ''Status'' ?cols" by (rule distinct_not_repeated [OF d])
  have "compare_files dt attendance bio1_raw bio2_raw
          = Inr (set_column ''Status'' (map Text sts) ?md)"
    unfolding compare_files_def md0 sum.case Let_def c0 f1 f2 km k1 k2 columns_map_column l
    using ns by simp
  then show ?thesis by blast
qed

end
